theory Spec2Isabelle
  imports Main "HOL-Library.Sublist"
begin

section \<open>JavaScript string primitives used by server.js\<close>

text \<open>
  A JavaScript string is modelled as a \<open>string\<close>; a \<open>char\<close> stands for one UTF-16 code
  unit below 256. \<open>is_space\<close> is the class \<open>\s\<close> of regular expressions, which is also
  the set that \<open>String.prototype.trim\<close> removes, restricted to that range; \<open>is_word\<close> is
  \<open>\w\<close>; \<open>is_line_term\<close> is what \<open>.\<close> refuses to match.
\<close>

definition is_space :: "char \<Rightarrow> bool" where
  "is_space c \<longleftrightarrow>
     c \<in> set [CHR 0x09, CHR 0x0A, CHR 0x0B, CHR 0x0C, CHR 0x0D, CHR 0x20, CHR 0xA0]"

definition is_word :: "char \<Rightarrow> bool" where
  "is_word c \<longleftrightarrow>
     c \<in> set ''abcdefghijklmnopqrstuvwxyzABCDEFGHIJKLMNOPQRSTUVWXYZ0123456789_''"

definition is_line_term :: "char \<Rightarrow> bool" where
  "is_line_term c \<longleftrightarrow> c = CHR 0x0A \<or> c = CHR 0x0D"

definition is_ansi_param :: "char \<Rightarrow> bool" where
  "is_ansi_param c \<longleftrightarrow> c \<in> set ''0123456789;''"

text \<open>Removing the longest suffix whose characters all satisfy \<open>P\<close>.\<close>

definition drop_trailing :: "(char \<Rightarrow> bool) \<Rightarrow> string \<Rightarrow> string" where
  "drop_trailing P s = rev (dropWhile P (rev s))"

definition js_trim :: "string \<Rightarrow> string" where
  "js_trim s = drop_trailing is_space (dropWhile is_space s)"

text \<open>\<open>s.includes(t)\<close>: \<open>t\<close> occurs in \<open>s\<close> as a contiguous substring.\<close>

fun js_includes :: "string \<Rightarrow> string \<Rightarrow> bool" where
  "js_includes [] t = (t = [])"
| "js_includes (c # cs) t = (prefix t (c # cs) \<or> js_includes cs t)"

text \<open>\<open>s.split("\n")\<close>: always at least one piece; the separators are dropped.\<close>

fun split_lines :: "string \<Rightarrow> string list" where
  "split_lines [] = [[]]"
| "split_lines (c # cs) =
     (if c = CHR 0x0A then [] # split_lines cs
      else (case split_lines cs of l # ls \<Rightarrow> (c # l) # ls | [] \<Rightarrow> [[c]]))"

text \<open>\<open>ls.join("\n")\<close> on an array of strings.\<close>

fun join_lines :: "string list \<Rightarrow> string" where
  "join_lines [] = []"
| "join_lines [l] = l"
| "join_lines (l # m # ls) = l @ CHR 0x0A # join_lines (m # ls)"

subsection \<open>The pattern \<open>/\x1b\[[0-9;]*m/g\<close>\<close>

text \<open>
  \<open>ansi_match s\<close> tries the pattern at the start of \<open>s\<close> and returns what follows the
  match. The class \<open>[0-9;]\<close> does not contain \<open>m\<close>, so the greedy star can only succeed
  with its longest run: backtracking never finds another match.
\<close>

definition ansi_match :: "string \<Rightarrow> string option" where
  "ansi_match s =
     (case s of
        e # b # r \<Rightarrow>
          if e = CHR 0x1B \<and> b = CHR ''['' then
            (case dropWhile is_ansi_param r of
               m # r' \<Rightarrow> if m = CHR ''m'' then Some r' else None
             | [] \<Rightarrow> None)
          else None
      | _ \<Rightarrow> None)"

text \<open>
  \<open>s.replace(/\x1b\[[0-9;]*m/g, "")\<close>: scan from the left; where the pattern matches,
  drop the match and go on behind it, otherwise keep the character.
\<close>

function strip_ansi :: "string \<Rightarrow> string" where
  "strip_ansi [] = []"
| "strip_ansi (c # cs) =
     (case ansi_match (c # cs) of
        Some r \<Rightarrow> strip_ansi r
      | None \<Rightarrow> c # strip_ansi cs)"
  by pat_completeness auto
termination
proof (relation "measure length")
  show "wf (measure length)" by simp
next
  fix c :: char and cs r :: string
  assume m: "ansi_match (c # cs) = Some r"
  then obtain b r0 where cs: "cs = b # r0" and d: "dropWhile is_ansi_param r0 = CHR ''m'' # r"
    by (auto simp: ansi_match_def split: list.splits if_splits)
  have "length (dropWhile is_ansi_param r0) \<le> length r0"
    by (rule length_dropWhile_le)
  with cs d show "(r, c # cs) \<in> measure length" by simp
next
  fix c :: char and cs :: string
  show "(cs, c # cs) \<in> measure length" by simp
qed

section \<open>The environment list parser\<close>

text \<open>
  \<open>/^\s*(\w+)\s+a\s+\w+\s+project$/\<close> on a string: the result is the first capture group.
  Consecutive pieces of the pattern match disjoint character classes (white space, word
  characters) or a literal that has to be followed by white space or the end, so each
  greedy quantifier can only succeed with its longest run and the match is found by one
  scan from the left. There is no \<open>m\<close> flag: \<open>^\<close> and \<open>$\<close> are the two ends of the string.
\<close>

definition match_project :: "string \<Rightarrow> string option" where
  "match_project s =
     (let s1 = dropWhile is_space s;
          name = takeWhile is_word s1;
          r1 = dropWhile is_word s1;
          r2 = dropWhile is_space r1;
          r3 = drop 1 r2;
          r4 = dropWhile is_space r3;
          ty = takeWhile is_word r4;
          r5 = dropWhile is_word r4;
          r6 = dropWhile is_space r5
      in if name \<noteq> [] \<and> r1 \<noteq> r2 \<and> take 1 r2 = ''a'' \<and> r3 \<noteq> r4 \<and> ty \<noteq> []
            \<and> r5 \<noteq> r6 \<and> r6 = ''project''
         then Some name else None)"

text \<open>
  \<open>/^\s*Project Directory:\s*(.+)$/\<close>: after the literal, \<open>\s*\<close> takes the longest run of
  white space \<open>w\<close> and \<open>(.+)\<close> the rest \<open>r\<close>, which must be non-empty and free of line
  terminators. When \<open>r\<close> is empty the star gives back one character at a time: the match
  succeeds with the last character of \<open>w\<close> as the capture when that character is not a
  line terminator, and fails otherwise (any longer capture would contain it, or \<open>r\<close>).
\<close>

definition match_directory :: "string \<Rightarrow> string option" where
  "match_directory s =
     (let s1 = dropWhile is_space s in
      if prefix ''Project Directory:'' s1 then
        (let t = drop (length ''Project Directory:'') s1;
             w = takeWhile is_space t;
             r = dropWhile is_space t
         in if r \<noteq> [] then (if list_ex is_line_term r then None else Some r)
            else if w \<noteq> [] \<and> \<not> is_line_term (last w) then Some [last w]
            else None)
      else None)"

record environment =
  name :: string
  path :: string
  raw :: string

text \<open>
  The loop state is the list of records pushed so far and \<open>currentProject\<close>
  (\<open>None\<close> is JavaScript's \<open>null\<close>). \<open>currentPath\<close> is written and reset inside one
  branch and never read elsewhere, so it does not appear.
\<close>

type_synonym parser_state = "environment list \<times> string option"

definition is_skipped :: "string \<Rightarrow> bool" where
  "is_skipped trimmed \<longleftrightarrow>
     trimmed = [] \<or> js_includes trimmed ''No running environments found''
       \<or> js_includes trimmed ''Found the following''"

definition parse_line :: "parser_state \<Rightarrow> string \<Rightarrow> parser_state" where
  "parse_line st line =
     (let (environments, currentProject) = st;
          trimmed = js_trim line
      in if is_skipped trimmed then st
         else
           (let cleanLine = strip_ansi trimmed in
            case match_project cleanLine of
              Some n \<Rightarrow> (environments, Some n)
            | None \<Rightarrow>
                (case (match_directory cleanLine, currentProject) of
                   (Some p, Some n) \<Rightarrow>
                     (environments @ [\<lparr>name = n, path = p, raw = line\<rparr>], None)
                 | _ \<Rightarrow> st)))"

definition parseEnvironmentList :: "string \<Rightarrow> environment list" where
  "parseEnvironmentList output = fst (foldl parse_line ([], None) (split_lines output))"

section \<open>The outside world\<close>

text \<open>
  What server.js reaches through Node's \<open>path\<close>, \<open>fs\<close> and \<open>child_process\<close> modules.
  \<open>path.resolve\<close> and \<open>path.join\<close> are Node library functions (the first reads the
  working directory of the server); they are parameters of the model. The file system
  maps a path to what is there. A spawned process is an oracle: from the invocation and
  the file system it gives the events that the child process object emits, in order, and
  the file system the process leaves behind. A list without a \<open>Close\<close> or \<open>ErrorEvent\<close>
  is a process that never ends. The call of \<open>spawn\<close> itself is taken to return the
  child process object: an exception that \<open>spawn\<close> raises while it checks its arguments is
  not modelled. \<open>execSync\<close> runs a shell command line.
  An argument of a tool call is \<open>None\<close> when the caller left it out (JavaScript's
  \<open>undefined\<close>); an element of an argument vector can be \<open>undefined\<close> for that reason.
\<close>

type_synonym jsarg = "string option"

type_synonym invocation = "string \<times> jsarg list \<times> string"

datatype fs_node = Dir | File string

type_synonym filesystem = "string \<Rightarrow> fs_node option"

text \<open>
  The \<open>stdout\<close> or \<open>stderr\<close> property of an error object: absent, a string, or a Buffer
  (what \<open>execSync\<close> attaches). A Buffer is truthy even when it is empty.
\<close>

datatype err_stream = NoStream | StrStream string | BufStream string

record js_error =
  message :: string
  err_stdout :: err_stream
  err_stderr :: err_stream

record cmd_result =
  stdout :: string
  stderr :: string
  code :: "int option"

text \<open>The three states of a promise.\<close>

datatype 'a promise = Pending | Resolved 'a | Rejected js_error

text \<open>
  The events of a child process: a chunk on its standard output, a chunk on its standard
  error, \<open>close\<close> with the exit code (\<open>null\<close> when a signal ended the process), and \<open>error\<close>
  with the message of the failure to spawn.
\<close>

datatype proc_event =
    StdoutData string
  | StderrData string
  | Close "int option"
  | ErrorEvent string

record world =
  path_resolve :: "string \<Rightarrow> string"
  path_join :: "string \<Rightarrow> string \<Rightarrow> string"
  process_cwd :: string
  spawn :: "invocation \<Rightarrow> filesystem \<Rightarrow> proc_event list \<times> filesystem"
  execSync :: "string \<Rightarrow> filesystem \<Rightarrow> js_error option \<times> filesystem"

text \<open>
  The state threaded through a tool call: the file system, the invocations of
  \<open>executeCommand\<close> so far and the command lines given to \<open>execSync\<close> so far.
\<close>

record state =
  fs :: filesystem
  spawned :: "invocation list"
  shells :: "string list"

definition existsSync :: "filesystem \<Rightarrow> string \<Rightarrow> bool" where
  "existsSync f p \<longleftrightarrow> f p \<noteq> None"

definition plain_error :: "string \<Rightarrow> js_error" where
  "plain_error m = \<lparr>message = m, err_stdout = NoStream, err_stderr = NoStream\<rparr>"

section \<open>The process runner\<close>

text \<open>
  The body of the promise in \<open>executeCommand\<close>: the two buffers grow with the data events;
  the first \<open>close\<close> resolves the promise, the first \<open>error\<close> rejects it, and a settled
  promise ignores what comes later.
\<close>

fun collect :: "string \<Rightarrow> string \<Rightarrow> proc_event list \<Rightarrow> cmd_result promise" where
  "collect out err [] = Pending"
| "collect out err (StdoutData d # evs) = collect (out @ d) err evs"
| "collect out err (StderrData d # evs) = collect out (err @ d) evs"
| "collect out err (Close c # evs) = Resolved \<lparr>stdout = out, stderr = err, code = c\<rparr>"
| "collect out err (ErrorEvent m # evs) =
     Rejected \<lparr>message = ''Failed to spawn command: '' @ m,
               err_stdout = StrStream out, err_stderr = StrStream err\<rparr>"

definition executeCommand ::
  "world \<Rightarrow> string \<Rightarrow> jsarg list \<Rightarrow> string \<Rightarrow> state \<Rightarrow> cmd_result promise \<times> state" where
  "executeCommand w cmd argv dir s =
     (let (events, fs') = spawn w (cmd, argv, dir) (fs s)
      in (collect [] [] events,
          s\<lparr>fs := fs', spawned := spawned s @ [(cmd, argv, dir)]\<rparr>))"

section \<open>Rendering\<close>

datatype status_report = StatusReport
  (success: bool) (command_line: string) (exit_code: "int option")
  (environments: "(string \<times> string) list") (error: "string option")
  (raw_output: string) (raw_errors: "string option")

text \<open>
  A content item has type \<open>"text"\<close>. \<open>JsonText r\<close> stands for the text
  \<open>JSON.stringify(r, null, 2)\<close> of the report object that \<open>listEnvironments\<close> builds.
\<close>

datatype content_item = Text string | JsonText status_report

record envelope =
  content :: "content_item list"
  isError :: bool

text \<open>\<open>x || d\<close> on a string, and on the stream property of an error object.\<close>

definition or_default :: "string \<Rightarrow> string \<Rightarrow> string" where
  "or_default x d = (if x = [] then d else x)"

fun stream_or :: "err_stream \<Rightarrow> string \<Rightarrow> string" where
  "stream_or NoStream d = d"
| "stream_or (StrStream x) d = or_default x d"
| "stream_or (BufStream x) d = x"

fun show_nat :: "nat \<Rightarrow> string" where
  "show_nat n =
     (if n < 10 then [''0123456789'' ! n]
      else show_nat (n div 10) @ [''0123456789'' ! (n mod 10)])"

declare show_nat.simps [simp del]

definition show_int :: "int \<Rightarrow> string" where
  "show_int i = (if i < 0 then CHR ''-'' # show_nat (nat (- i)) else show_nat (nat i))"

text \<open>A value inside a template literal.\<close>

definition show_code :: "int option \<Rightarrow> string" where
  "show_code c = (case c of None \<Rightarrow> ''null'' | Some i \<Rightarrow> show_int i)"

definition show_arg :: "jsarg \<Rightarrow> string" where
  "show_arg a = (case a of None \<Rightarrow> ''undefined'' | Some v \<Rightarrow> v)"

text \<open>\<open>xs.join(" ")\<close>: an \<open>undefined\<close> element is written as the empty string.\<close>

fun js_join :: "jsarg list \<Rightarrow> string" where
  "js_join [] = []"
| "js_join [a] = (case a of None \<Rightarrow> [] | Some v \<Rightarrow> v)"
| "js_join (a # b # r) = (case a of None \<Rightarrow> [] | Some v \<Rightarrow> v) @ CHR '' '' # js_join (b # r)"

text \<open>\<open>p.replace(/\/+$/, "")\<close>.\<close>

definition strip_slashes :: "string \<Rightarrow> string" where
  "strip_slashes p = drop_trailing (\<lambda>c. c = CHR ''/'') p"

definition text_envelope :: "string \<Rightarrow> bool \<Rightarrow> envelope" where
  "text_envelope t e = \<lparr>content = [Text t], isError = e\<rparr>"

section \<open>Tool arguments\<close>

text \<open>
  The \<open>arguments\<close> object of a tool call, with the declared type of each property;
  \<open>None\<close> is a property the caller left out.
\<close>

record tool_args =
  project_path :: "string option"
  query :: "string option"
  database :: "string option"
  script_path :: "string option"
  args :: "string list option"
  command :: "string option"
  config_file :: "string option"
  test_path :: "string option"
  extra_args :: "string list option"
  project_name :: "string option"
  environment_type :: "string option"
  php_version :: "string option"
  mysql_distribution :: "string option"
  mysql_version :: "string option"
  node_version :: "string option"
  composer_version :: "string option"
  opensearch_version :: "string option"
  redis_version :: "string option"
  enable_redis :: "bool option"
  enable_opensearch :: "bool option"
  enable_varnish :: "bool option"
  enable_rabbitmq :: "bool option"
  enable_xdebug :: "bool option"

text \<open>A destructuring default: \<open>const { x = d } = args\<close>.\<close>

definition default_to :: "'a \<Rightarrow> 'a option \<Rightarrow> 'a" where
  "default_to d x = (case x of None \<Rightarrow> d | Some v \<Rightarrow> v)"

section \<open>Command formatters\<close>

text \<open>The two envelopes of \<open>executeWardenCommand\<close>: after the process has ended, and in \<open>catch\<close>.\<close>

definition command_report :: "string \<Rightarrow> string \<Rightarrow> string \<Rightarrow> cmd_result \<Rightarrow> envelope" where
  "command_report description commandStr absoluteProjectPath result =
     (let isSuccess = (code result = Some 0) in
      text_envelope
        (description @ '' ''
           @ (if isSuccess then ''completed successfully'' else ''failed'')
           @ ''!\<newline>\<newline>Command: '' @ commandStr
           @ ''\<newline>Working directory: '' @ absoluteProjectPath
           @ ''\<newline>Exit Code: '' @ show_code (code result)
           @ ''\<newline>\<newline>Output:\<newline>'' @ or_default (stdout result) ''(no output)''
           @ ''\<newline>\<newline>Errors:\<newline>'' @ or_default (stderr result) ''(no errors)'')
        (\<not> isSuccess))"

definition command_caught :: "string \<Rightarrow> string \<Rightarrow> js_error \<Rightarrow> envelope" where
  "command_caught commandStr absoluteProjectPath e =
     text_envelope
       (''Failed to execute command:\<newline>\<newline>Command: '' @ commandStr
          @ ''\<newline>Working directory: '' @ absoluteProjectPath
          @ ''\<newline>Error: '' @ message e
          @ ''\<newline>\<newline>Output:\<newline>'' @ stream_or (err_stdout e) ''(no output)''
          @ ''\<newline>\<newline>Errors:\<newline>'' @ stream_or (err_stderr e) ''(no errors)'')
       True"

definition executeWardenCommand ::
  "world \<Rightarrow> string option \<Rightarrow> jsarg list \<Rightarrow> string \<Rightarrow> state \<Rightarrow> envelope promise \<times> state" where
  "executeWardenCommand w pp wardenArgs description s =
     (case pp of
        None \<Rightarrow> (Rejected (plain_error ''project_path is required''), s)
      | Some p \<Rightarrow>
          if p = [] then (Rejected (plain_error ''project_path is required''), s)
          else
            (let absoluteProjectPath = path_resolve w (strip_slashes p) in
             if \<not> existsSync (fs s) absoluteProjectPath then
               (Rejected (plain_error
                  (''Project directory does not exist: '' @ absoluteProjectPath)), s)
             else
               (let commandStr = ''warden '' @ js_join wardenArgs in
                case executeCommand w ''warden'' wardenArgs absoluteProjectPath s of
                  (Resolved result, s') \<Rightarrow>
                    (Resolved (command_report description commandStr absoluteProjectPath result),
                     s')
                | (Rejected e, s') \<Rightarrow>
                    (Resolved (command_caught commandStr absoluteProjectPath e), s')
                | (Pending, s') \<Rightarrow> (Pending, s'))))"

definition startProject :: "world \<Rightarrow> tool_args \<Rightarrow> state \<Rightarrow> envelope promise \<times> state" where
  "startProject w a s =
     executeWardenCommand w (project_path a) [Some ''env'', Some ''up'']
       ''Starting Warden project environment'' s"

definition stopProject :: "world \<Rightarrow> tool_args \<Rightarrow> state \<Rightarrow> envelope promise \<times> state" where
  "stopProject w a s =
     executeWardenCommand w (project_path a) [Some ''env'', Some ''down'']
       ''Stopping Warden project environment'' s"

definition startSvc :: "world \<Rightarrow> tool_args \<Rightarrow> state \<Rightarrow> envelope promise \<times> state" where
  "startSvc w a s =
     executeWardenCommand w (project_path a) [Some ''svc'', Some ''up'']
       ''Starting Warden system services'' s"

definition stopSvc :: "world \<Rightarrow> tool_args \<Rightarrow> state \<Rightarrow> envelope promise \<times> state" where
  "stopSvc w a s =
     executeWardenCommand w (project_path a) [Some ''svc'', Some ''down'']
       ''Stopping Warden system services'' s"

definition runDbQuery :: "world \<Rightarrow> tool_args \<Rightarrow> state \<Rightarrow> envelope promise \<times> state" where
  "runDbQuery w a s =
     (let db = default_to ''magento'' (database a);
          wardenCommand =
            [Some ''env'', Some ''exec'', Some ''-T'', Some ''db'', Some ''mysql'', Some ''-u'',
             Some ''root'', Some ''-pmagento'', Some db, Some ''-e'', query a]
      in executeWardenCommand w (project_path a) wardenCommand
           (''Running database query in '' @ db) s)"

definition runPhpScript :: "world \<Rightarrow> tool_args \<Rightarrow> state \<Rightarrow> envelope promise \<times> state" where
  "runPhpScript w a s =
     (let scriptArgs = default_to [] (args a);
          wardenCommand =
            [Some ''env'', Some ''exec'', Some ''-T'', Some ''php-fpm'', Some ''php'',
             script_path a] @ map Some scriptArgs
      in executeWardenCommand w (project_path a) wardenCommand
           (''Running PHP script: '' @ show_arg (script_path a)) s)"

definition runMagentoCli :: "world \<Rightarrow> tool_args \<Rightarrow> state \<Rightarrow> envelope promise \<times> state" where
  "runMagentoCli w a s =
     (let commandArgs = default_to [] (args a);
          wardenCommand =
            [Some ''env'', Some ''exec'', Some ''-T'', Some ''php-fpm'', Some ''php'',
             Some ''bin/magento'', command a] @ map Some commandArgs
      in executeWardenCommand w (project_path a) wardenCommand
           (''Running Magento CLI: bin/magento '' @ show_arg (command a)) s)"

text \<open>
  \<open>runUnitTests\<close> reads \<open>project_path.replace\<close> without a check: on a missing
  \<open>project_path\<close> that is a TypeError, raised before anything is run (with a
  \<open>config_file\<close> it is raised a few lines later, still before the process runner is
  called). The existence of the project directory is never tested here.
\<close>

definition debug_info :: "string \<Rightarrow> string \<Rightarrow> string \<Rightarrow> string list \<Rightarrow> string \<Rightarrow> string" where
  "debug_info absoluteProjectPath actualConfigFile tp extra commandStr =
     ''\<newline>Debug Information:\<newline>- Project Path: '' @ absoluteProjectPath
       @ ''\<newline>- Config File Used: '' @ actualConfigFile
       @ ''\<newline>- Test Path: '' @ or_default tp ''(all tests)''
       @ ''\<newline>- Extra Args: ''
       @ (if 0 < length extra then js_join (map Some extra) else ''(none)'')
       @ ''\<newline>- Full Command: '' @ commandStr @ ''\<newline>''"

definition phpunit_report :: "string \<Rightarrow> string \<Rightarrow> cmd_result \<Rightarrow> envelope" where
  "phpunit_report actualConfigFile debugInfo result =
     (let isSuccess = (code result = Some 0) in
      text_envelope
        (''Running PHPUnit tests with config: '' @ actualConfigFile @ '' ''
           @ (if isSuccess then ''completed successfully'' else ''failed'')
           @ ''!\<newline>'' @ debugInfo
           @ ''\<newline>Exit Code: '' @ show_code (code result)
           @ ''\<newline>\<newline>Output:\<newline>'' @ or_default (stdout result) ''(no output)''
           @ ''\<newline>\<newline>Errors:\<newline>'' @ or_default (stderr result) ''(no errors)'')
        (\<not> isSuccess))"

definition phpunit_caught :: "string \<Rightarrow> js_error \<Rightarrow> envelope" where
  "phpunit_caught debugInfo e =
     text_envelope
       (''Failed to execute PHPUnit tests:\<newline>'' @ debugInfo
          @ ''\<newline>Error: '' @ message e
          @ ''\<newline>\<newline>Output:\<newline>'' @ stream_or (err_stdout e) ''(no output)''
          @ ''\<newline>\<newline>Errors:\<newline>'' @ stream_or (err_stderr e) ''(no errors)'')
       True"

text \<open>
  The choice of \<open>actualConfigFile\<close>: the parameter when it is given, else the first of
  the two candidates that exists in the project directory; \<open>None\<close> is the \<open>throw\<close>.
\<close>

definition detect_config :: "world \<Rightarrow> filesystem \<Rightarrow> string \<Rightarrow> string \<Rightarrow> string option" where
  "detect_config w f absoluteProjectPath cfg =
     (if cfg \<noteq> [] then Some cfg
      else if existsSync f (path_join w absoluteProjectPath ''phpunit.xml.dist'')
        then Some ''phpunit.xml.dist''
      else if existsSync f (path_join w absoluteProjectPath ''phpunit.xml'')
        then Some ''phpunit.xml''
      else None)"

definition phpunit_command :: "string \<Rightarrow> string \<Rightarrow> string list \<Rightarrow> string list" where
  "phpunit_command actualConfigFile tp extra =
     [''env'', ''exec'', ''-T'', ''php-fpm'', ''php'', ''vendor/phpunit/phpunit/phpunit'', ''-c'',
      actualConfigFile]
     @ (if tp \<noteq> [] \<and> js_trim tp \<noteq> [] then [tp] else [])
     @ extra"

definition runUnitTests :: "world \<Rightarrow> tool_args \<Rightarrow> state \<Rightarrow> envelope promise \<times> state" where
  "runUnitTests w a s =
     (let cfg = default_to [] (config_file a);
          tp = default_to [] (test_path a);
          extra = default_to [] (extra_args a)
      in case project_path a of
           None \<Rightarrow>
             (Rejected (plain_error
                ''Cannot read properties of undefined (reading 'replace')''), s)
         | Some p \<Rightarrow>
             (let absoluteProjectPath = path_resolve w (strip_slashes p) in
              case detect_config w (fs s) absoluteProjectPath cfg of
                None \<Rightarrow>
                  (Rejected (plain_error
                     ''No PHPUnit configuration file found (phpunit.xml.dist or phpunit.xml)''), s)
              | Some actualConfigFile \<Rightarrow>
                  (let wardenCommand = phpunit_command actualConfigFile tp extra;
                       commandStr = ''warden '' @ js_join (map Some wardenCommand);
                       debugInfo =
                         debug_info absoluteProjectPath actualConfigFile tp extra commandStr
                   in case executeCommand w ''warden'' (map Some wardenCommand)
                             absoluteProjectPath s of
                        (Resolved result, s') \<Rightarrow>
                          (Resolved (phpunit_report actualConfigFile debugInfo result), s')
                      | (Rejected e, s') \<Rightarrow> (Resolved (phpunit_caught debugInfo e), s')
                      | (Pending, s') \<Rightarrow> (Pending, s'))))"

subsection \<open>The dependency manager\<close>

text \<open>\<open>s.split(/\s+/)\<close>: the pieces between the maximal runs of white space.\<close>

function split_ws :: "string \<Rightarrow> string list" where
  "split_ws s =
     (let tok = takeWhile (\<lambda>c. \<not> is_space c) s;
          r = dropWhile (\<lambda>c. \<not> is_space c) s
      in if r = [] then [tok] else tok # split_ws (dropWhile is_space r))"
  by pat_completeness auto
termination
proof (relation "measure length")
  show "wf (measure length)" by simp
next
  fix s tok r :: string
  assume r: "r = dropWhile (\<lambda>c. \<not> is_space c) s" and ne: "r \<noteq> []"
  from r ne have "is_space (hd r)"
    using hd_dropWhile [of "\<lambda>c. \<not> is_space c" s] by simp
  with ne have "length (dropWhile is_space r) < length r"
    by (cases r) (simp_all add: le_imp_less_Suc length_dropWhile_le)
  moreover from r have "length r \<le> length s"
    by (simp add: length_dropWhile_le)
  ultimately show "(dropWhile is_space r, s) \<in> measure length" by simp
qed

declare split_ws.simps [simp del]

text \<open>\<open>toLowerCase\<close> on code units below 256.\<close>

definition to_lower :: "char \<Rightarrow> char" where
  "to_lower c =
     (case map_of (zip
        (''ABCDEFGHIJKLMNOPQRSTUVWXYZ'' @
         [CHR 0xC0, CHR 0xC1, CHR 0xC2, CHR 0xC3, CHR 0xC4, CHR 0xC5, CHR 0xC6, CHR 0xC7,
          CHR 0xC8, CHR 0xC9, CHR 0xCA, CHR 0xCB, CHR 0xCC, CHR 0xCD, CHR 0xCE, CHR 0xCF,
          CHR 0xD0, CHR 0xD1, CHR 0xD2, CHR 0xD3, CHR 0xD4, CHR 0xD5, CHR 0xD6, CHR 0xD8,
          CHR 0xD9, CHR 0xDA, CHR 0xDB, CHR 0xDC, CHR 0xDD, CHR 0xDE])
        (''abcdefghijklmnopqrstuvwxyz'' @
         [CHR 0xE0, CHR 0xE1, CHR 0xE2, CHR 0xE3, CHR 0xE4, CHR 0xE5, CHR 0xE6, CHR 0xE7,
          CHR 0xE8, CHR 0xE9, CHR 0xEA, CHR 0xEB, CHR 0xEC, CHR 0xED, CHR 0xEE, CHR 0xEF,
          CHR 0xF0, CHR 0xF1, CHR 0xF2, CHR 0xF3, CHR 0xF4, CHR 0xF5, CHR 0xF6, CHR 0xF8,
          CHR 0xF9, CHR 0xFA, CHR 0xFB, CHR 0xFC, CHR 0xFD, CHR 0xFE])) c of
        Some l \<Rightarrow> l
      | None \<Rightarrow> c)"

definition toLowerCase :: "string \<Rightarrow> string" where
  "toLowerCase s = map to_lower s"

text \<open>The \<open>catch\<close> block of \<open>runComposer\<close>.\<close>

definition composer_caught :: "string \<Rightarrow> string \<Rightarrow> js_error \<Rightarrow> envelope" where
  "composer_caught c absoluteProjectPath e =
     text_envelope
       (''Failed to execute Composer command:\<newline>\<newline>Command: composer '' @ c
          @ ''\<newline>Working directory: '' @ absoluteProjectPath
          @ ''\<newline>Error: '' @ message e
          @ ''\<newline>\<newline>Output:\<newline>'' @ stream_or (err_stdout e) ''(no output)''
          @ ''\<newline>\<newline>Errors:\<newline>'' @ stream_or (err_stderr e) ''(no errors)'')
       True"

definition composer_report :: "string \<Rightarrow> string \<Rightarrow> string \<Rightarrow> cmd_result \<Rightarrow> envelope" where
  "composer_report composerCommand c absoluteProjectPath result =
     (let commandStr = composerCommand @ '' '' @ c;
          isSuccess = (code result = Some 0)
      in text_envelope
           (''Composer command ''
              @ (if isSuccess then ''completed successfully'' else ''failed'')
              @ ''!\<newline>\<newline>Command: '' @ commandStr
              @ ''\<newline>Working directory: '' @ absoluteProjectPath
              @ ''\<newline>Exit Code: '' @ show_code (code result)
              @ ''\<newline>\<newline>Output:\<newline>'' @ or_default (stdout result) ''(no output)''
              @ ''\<newline>\<newline>Errors:\<newline>'' @ or_default (stderr result) ''(no errors)'')
           (\<not> isSuccess))"

text \<open>The end of the \<open>try\<close> block: the user's command, once the executable is chosen.\<close>

definition composer_execute ::
  "world \<Rightarrow> string \<Rightarrow> string \<Rightarrow> string \<Rightarrow> state \<Rightarrow> envelope promise \<times> state" where
  "composer_execute w composerCommand c absoluteProjectPath s =
     (let commandParts = split_ws (js_trim c);
          wardenCommand =
            [''env'', ''exec'', ''-T'', ''php-fpm'', composerCommand] @ commandParts
      in case executeCommand w ''warden'' (map Some wardenCommand) absoluteProjectPath s of
           (Resolved result, s') \<Rightarrow>
             (Resolved (composer_report composerCommand c absoluteProjectPath result), s')
         | (Rejected e, s') \<Rightarrow> (Resolved (composer_caught c absoluteProjectPath e), s')
         | (Pending, s') \<Rightarrow> (Pending, s'))"

definition which_composer2 :: "jsarg list" where
  "which_composer2 =
     [Some ''env'', Some ''exec'', Some ''-T'', Some ''php-fpm'', Some ''which'', Some ''composer2'']"

definition which_composer :: "jsarg list" where
  "which_composer =
     [Some ''env'', Some ''exec'', Some ''-T'', Some ''php-fpm'', Some ''which'', Some ''composer'']"

definition composer_version_check :: "jsarg list" where
  "composer_version_check =
     [Some ''env'', Some ''exec'', Some ''-T'', Some ''php-fpm'', Some ''composer'', Some ''--version'']"

text \<open>The three envelopes that end the capability probe early.\<close>

definition composer_not_found :: envelope where
  "composer_not_found =
     text_envelope
       (''Composer not found!\<newline>\<newline>Neither 'composer2' nor 'composer' commands are ''
          @ ''available in the php-fpm container.\<newline>\<newline>''
          @ ''Please install Composer version 2 in your container.'')
       True"

definition version_check_failed :: "cmd_result \<Rightarrow> envelope" where
  "version_check_failed versionCheckResult =
     text_envelope
       (''Failed to check Composer version!\<newline>\<newline>Command: composer --version''
          @ ''\<newline>Error: '' @ stderr versionCheckResult)
       True"

definition version_2_required :: "cmd_result \<Rightarrow> envelope" where
  "version_2_required versionCheckResult =
     text_envelope
       (''Composer version 2 is required!\<newline>\<newline>Found: ''
          @ js_trim (stdout versionCheckResult)
          @ ''\<newline>\<newline>Please install or upgrade to Composer version 2.'')
       True"

definition runComposer :: "world \<Rightarrow> tool_args \<Rightarrow> state \<Rightarrow> envelope promise \<times> state" where
  "runComposer w a s =
     (case project_path a of
        None \<Rightarrow> (Rejected (plain_error ''project_path is required''), s)
      | Some p \<Rightarrow>
      if p = [] then (Rejected (plain_error ''project_path is required''), s)
      else
     (case command a of
        None \<Rightarrow> (Rejected (plain_error ''command is required''), s)
      | Some c \<Rightarrow>
      if c = [] then (Rejected (plain_error ''command is required''), s)
      else
     (let absoluteProjectPath = path_resolve w (strip_slashes p) in
      if \<not> existsSync (fs s) absoluteProjectPath then
        (Rejected (plain_error
           (''Project directory does not exist: '' @ absoluteProjectPath)), s)
      else
     (case executeCommand w ''warden'' which_composer2 absoluteProjectPath s of
        (Pending, s1) \<Rightarrow> (Pending, s1)
      | (Rejected e, s1) \<Rightarrow> (Resolved (composer_caught c absoluteProjectPath e), s1)
      | (Resolved composer2CheckResult, s1) \<Rightarrow>
      if code composer2CheckResult = Some 0 then
        composer_execute w ''composer2'' c absoluteProjectPath s1
      else
     (case executeCommand w ''warden'' which_composer absoluteProjectPath s1 of
        (Pending, s2) \<Rightarrow> (Pending, s2)
      | (Rejected e, s2) \<Rightarrow> (Resolved (composer_caught c absoluteProjectPath e), s2)
      | (Resolved composerCheckResult, s2) \<Rightarrow>
      if code composerCheckResult \<noteq> Some 0 then
        (Resolved composer_not_found, s2)
      else
     (case executeCommand w ''warden'' composer_version_check absoluteProjectPath s2 of
        (Pending, s3) \<Rightarrow> (Pending, s3)
      | (Rejected e, s3) \<Rightarrow> (Resolved (composer_caught c absoluteProjectPath e), s3)
      | (Resolved versionCheckResult, s3) \<Rightarrow>
      if code versionCheckResult \<noteq> Some 0 then
        (Resolved (version_check_failed versionCheckResult), s3)
      else if \<not> js_includes (toLowerCase (stdout versionCheckResult)) ''composer version 2'' then
        (Resolved (version_2_required versionCheckResult), s3)
      else composer_execute w ''composer'' c absoluteProjectPath s3))))))"

subsection \<open>The project initializer\<close>

text \<open>
  \<open>new RegExp(`^${key}=.*$`, "m")\<close> on the content: with the \<open>m\<close> flag \<open>^\<close> holds at the
  start and behind every line terminator, \<open>.*\<close> runs up to the next line terminator and
  \<open>$\<close> holds there. \<open>find_key_line\<close> returns the text before the first match, the match
  and the text behind it. The keys are fixed and contain no character that is special
  in a pattern.
\<close>

fun find_key_line ::
  "string \<Rightarrow> bool \<Rightarrow> string \<Rightarrow> string \<Rightarrow> (string \<times> string \<times> string) option" where
  "find_key_line k bol pre [] = None"
| "find_key_line k bol pre (c # cs) =
     (if bol \<and> prefix (k @ ''='') (c # cs) then
        Some (pre, takeWhile (\<lambda>x. \<not> is_line_term x) (c # cs),
              dropWhile (\<lambda>x. \<not> is_line_term x) (c # cs))
      else find_key_line k (is_line_term c) (pre @ [c]) cs)"

text \<open>
  The replacement string of \<open>String.prototype.replace\<close> is a template: \<open>$$\<close> is a dollar
  sign, \<open>$&\<close> the match, \<open>$`\<close> the text before it and \<open>$'\<close> the text behind it. The pattern
  has no capture group, so \<open>$1\<close> and the like stand for themselves.
\<close>

fun expand_replacement :: "string \<Rightarrow> string \<Rightarrow> string \<Rightarrow> string \<Rightarrow> string" where
  "expand_replacement pre m post [] = []"
| "expand_replacement pre m post [c] = [c]"
| "expand_replacement pre m post (c # d # r) =
     (if c = CHR ''$'' \<and> d = CHR ''$'' then CHR ''$'' # expand_replacement pre m post r
      else if c = CHR ''$'' \<and> d = CHR ''&'' then m @ expand_replacement pre m post r
      else if c = CHR ''$'' \<and> d = CHR 0x60 then pre @ expand_replacement pre m post r
      else if c = CHR ''$'' \<and> d = CHR 0x27 then post @ expand_replacement pre m post r
      else c # expand_replacement pre m post (d # r))"

text \<open>One round of the loop over \<open>Object.entries(updates)\<close>.\<close>

definition update_key :: "string \<Rightarrow> string \<Rightarrow> string \<Rightarrow> string" where
  "update_key k v envContent =
     (case find_key_line k True [] envContent of
        Some (pre, m, post) \<Rightarrow> pre @ expand_replacement pre m post (k @ ''='' @ v) @ post
      | None \<Rightarrow> envContent @ CHR 0x0A # k @ ''='' @ v)"

definition apply_updates :: "(string \<times> string) list \<Rightarrow> string \<Rightarrow> string" where
  "apply_updates kvs envContent = foldl (\<lambda>c (k, v). update_key k v c) envContent kvs"

definition flag :: "bool option \<Rightarrow> string" where
  "flag b = (if default_to True b then ''1'' else ''0'')"

definition enabled :: "bool option \<Rightarrow> string" where
  "enabled b = (if default_to True b then ''enabled'' else ''disabled'')"

text \<open>The object \<open>updates\<close>, in the order of its properties.\<close>

definition updates :: "tool_args \<Rightarrow> (string \<times> string) list" where
  "updates a =
     [(''PHP_VERSION'', default_to ''8.3'' (php_version a)),
      (''MYSQL_DISTRIBUTION'', default_to ''mariadb'' (mysql_distribution a)),
      (''MYSQL_DISTRIBUTION_VERSION'', default_to ''10.6'' (mysql_version a)),
      (''NODE_VERSION'', default_to ''20'' (node_version a)),
      (''COMPOSER_VERSION'', default_to ''2'' (composer_version a)),
      (''OPENSEARCH_VERSION'', default_to ''2.12'' (opensearch_version a)),
      (''REDIS_VERSION'', default_to ''7.2'' (redis_version a)),
      (''WARDEN_REDIS'', flag (enable_redis a)),
      (''WARDEN_OPENSEARCH'', flag (enable_opensearch a)),
      (''WARDEN_VARNISH'', flag (enable_varnish a)),
      (''WARDEN_RABBITMQ'', flag (enable_rabbitmq a)),
      (''PHP_XDEBUG_3'', flag (enable_xdebug a))]"

text \<open>The \<open>catch\<close> block of \<open>initProject\<close>.\<close>

definition init_caught :: "tool_args \<Rightarrow> js_error \<Rightarrow> envelope" where
  "init_caught a e =
     text_envelope
       (''Failed to initialize Warden project:\<newline>\<newline>Project Path: ''
          @ show_arg (project_path a)
          @ ''\<newline>Project Name: '' @ show_arg (project_name a)
          @ ''\<newline>Error: '' @ message e
          @ ''\<newline>\<newline>Output:\<newline>'' @ stream_or (err_stdout e) ''(no output)''
          @ ''\<newline>\<newline>Errors:\<newline>'' @ stream_or (err_stderr e) ''(no errors)'')
       True"

definition init_success :: "tool_args \<Rightarrow> string \<Rightarrow> cmd_result \<Rightarrow> envelope" where
  "init_success a absoluteProjectPath result =
     text_envelope
       (''Warden project initialized successfully!\<newline>\<newline>Project Path: ''
          @ absoluteProjectPath
          @ ''\<newline>Project Name: '' @ show_arg (project_name a)
          @ ''\<newline>Environment Type: '' @ default_to ''magento2'' (environment_type a)
          @ ''\<newline>\<newline>Configuration:\<newline>- PHP Version: ''
          @ default_to ''8.3'' (php_version a)
          @ ''\<newline>- MySQL: '' @ default_to ''mariadb'' (mysql_distribution a) @ '' ''
          @ default_to ''10.6'' (mysql_version a)
          @ ''\<newline>- Node.js: '' @ default_to ''20'' (node_version a)
          @ ''\<newline>- Composer: '' @ default_to ''2'' (composer_version a)
          @ ''\<newline>- OpenSearch: '' @ default_to ''2.12'' (opensearch_version a)
          @ '' ('' @ enabled (enable_opensearch a) @ '')''
          @ ''\<newline>- Redis: '' @ default_to ''7.2'' (redis_version a)
          @ '' ('' @ enabled (enable_redis a) @ '')''
          @ ''\<newline>- Varnish: '' @ enabled (enable_varnish a)
          @ ''\<newline>- RabbitMQ: '' @ enabled (enable_rabbitmq a)
          @ ''\<newline>- Xdebug: '' @ enabled (enable_xdebug a)
          @ ''\<newline>\<newline>Next steps:\<newline>1. Navigate to: '' @ absoluteProjectPath
          @ ''\<newline>2. Run: warden env up\<newline>3. Your environment will be available at: https://''
          @ show_arg (project_name a) @ ''.test\<newline>\<newline>Output:\<newline>'' @ stdout result)
       False"

text \<open>
  The whole body of \<open>initProject\<close> is inside \<open>try\<close>: every failure becomes an envelope.
  \<open>path.resolve\<close> raises a TypeError on \<open>undefined\<close>. The directory is made by a shell
  command line given to \<open>execSync\<close>; nothing tests whether it existed. \<open>readFileSync\<close>
  raises on a directory; \<open>writeFileSync\<close> is taken to succeed.
\<close>

definition initProject :: "world \<Rightarrow> tool_args \<Rightarrow> state \<Rightarrow> envelope promise \<times> state" where
  "initProject w a s =
     (case project_path a of
        None \<Rightarrow>
          (Resolved (init_caught a (plain_error
             ''The \"paths[0]\" argument must be of type string. Received undefined'')), s)
      | Some p \<Rightarrow>
     (let absoluteProjectPath = path_resolve w p;
          mkdir = ''mkdir -p \"'' @ absoluteProjectPath @ ''\"'';
          (failure, fs1) = execSync w mkdir (fs s);
          s1 = s\<lparr>fs := fs1, shells := shells s @ [mkdir]\<rparr>
      in case failure of
           Some e \<Rightarrow> (Resolved (init_caught a e), s1)
         | None \<Rightarrow>
     (case executeCommand w ''warden''
             [Some ''env'', Some ''init'', project_name a,
              Some (default_to ''magento2'' (environment_type a))]
             absoluteProjectPath s1 of
        (Pending, s2) \<Rightarrow> (Pending, s2)
      | (Rejected e, s2) \<Rightarrow> (Resolved (init_caught a e), s2)
      | (Resolved result, s2) \<Rightarrow>
      if code result \<noteq> Some 0 then
        (Resolved (init_caught a (plain_error (''Warden init failed: '' @ stderr result))), s2)
      else
     (let envFilePath = path_join w absoluteProjectPath ''.env'' in
      case fs s2 envFilePath of
        None \<Rightarrow> (Resolved (init_success a absoluteProjectPath result), s2)
      | Some Dir \<Rightarrow>
          (Resolved (init_caught a (plain_error
             ''EISDIR: illegal operation on a directory, read'')), s2)
      | Some (File envContent) \<Rightarrow>
          (Resolved (init_success a absoluteProjectPath result),
           s2\<lparr>fs := (fs s2)(envFilePath \<mapsto> File (apply_updates (updates a) envContent))\<rparr>)))))"

subsection \<open>The environment list tool\<close>

definition listEnvironments :: "world \<Rightarrow> state \<Rightarrow> envelope promise \<times> state" where
  "listEnvironments w s =
     (case executeCommand w ''warden'' [Some ''status''] (process_cwd w) s of
        (Resolved result, s') \<Rightarrow>
          if code result = Some 0 then
            (Resolved
               \<lparr>content =
                  [JsonText (StatusReport True ''warden status'' (code result)
                     (map (\<lambda>env. (name env, path env)) (parseEnvironmentList (stdout result)))
                     None (stdout result) None)],
                isError = False\<rparr>, s')
          else
            (Resolved
               \<lparr>content =
                  [JsonText (StatusReport False ''warden status'' (code result) []
                     (Some (or_default (stderr result) ''Unknown error''))
                     (stdout result) None)],
                isError = True\<rparr>, s')
      | (Rejected e, s') \<Rightarrow>
          (Resolved
             \<lparr>content =
                [JsonText (StatusReport False ''warden status'' (Some (- 1)) []
                   (Some (message e)) (stream_or (err_stdout e) [])
                   (Some (stream_or (err_stderr e) [])))],
              isError = True\<rparr>, s')
      | (Pending, s') \<Rightarrow> (Pending, s'))"

section \<open>The dispatcher\<close>

definition call_tool ::
  "world \<Rightarrow> string \<Rightarrow> tool_args \<Rightarrow> state \<Rightarrow> envelope promise \<times> state" where
  "call_tool w tool a s =
     (if tool = ''warden_list_environments'' then listEnvironments w s
      else if tool = ''warden_start_project'' then startProject w a s
      else if tool = ''warden_stop_project'' then stopProject w a s
      else if tool = ''warden_start_svc'' then startSvc w a s
      else if tool = ''warden_stop_svc'' then stopSvc w a s
      else if tool = ''warden_db_query'' then runDbQuery w a s
      else if tool = ''warden_php_script'' then runPhpScript w a s
      else if tool = ''warden_magento_cli'' then runMagentoCli w a s
      else if tool = ''warden_run_unit_tests'' then runUnitTests w a s
      else if tool = ''warden_composer'' then runComposer w a s
      else if tool = ''warden_init_project'' then initProject w a s
      else (Rejected (plain_error (''Unknown tool: '' @ tool)), s))"

section \<open>Stub worlds for concrete runs\<close>

text \<open>
  A world whose processes answer by argument vector and leave the file system alone,
  with the identity for \<open>path.resolve\<close> (every path used below is absolute and normal),
  and a state with the given directories and files on disk.
\<close>

definition stub_world :: "(jsarg list \<Rightarrow> proc_event list) \<Rightarrow> world" where
  "stub_world answers =
     \<lparr>path_resolve = (\<lambda>p. p),
      path_join = (\<lambda>d f. d @ ''/'' @ f),
      process_cwd = ''/srv'',
      spawn = (\<lambda>inv f. (answers (fst (snd inv)), f)),
      execSync = (\<lambda>c f. (None, f))\<rparr>"

definition on_disk :: "(string \<times> fs_node) list \<Rightarrow> state" where
  "on_disk nodes = \<lparr>fs = map_of nodes, spawned = [], shells = []\<rparr>"

definition no_args :: tool_args where
  "no_args =
     \<lparr>project_path = None, query = None, database = None, script_path = None, args = None,
      command = None, config_file = None, test_path = None, extra_args = None,
      project_name = None, environment_type = None, php_version = None,
      mysql_distribution = None, mysql_version = None, node_version = None,
      composer_version = None, opensearch_version = None, redis_version = None,
      enable_redis = None, enable_opensearch = None, enable_varnish = None,
      enable_rabbitmq = None, enable_xdebug = None\<rparr>"

text \<open>
  A container without \<open>composer2\<close> whose \<open>composer\<close> is version 1, and one whose
  \<open>composer\<close> is version 2.
\<close>

definition composer1_container :: "jsarg list \<Rightarrow> proc_event list" where
  "composer1_container v =
     (if v = which_composer2 then [Close (Some 1)]
      else if v = composer_version_check then
        [StdoutData ''Composer version 1.10.26 2022-04-13'', Close (Some 0)]
      else [StdoutData ''/usr/bin/composer'', Close (Some 0)])"

definition composer2_container :: "jsarg list \<Rightarrow> proc_event list" where
  "composer2_container v =
     (if v = which_composer2 then [Close (Some 1)]
      else if v = composer_version_check then
        [StdoutData ''Composer version 2.7.1 2024-02-09'', Close (Some 0)]
      else [StdoutData ''/usr/bin/composer'', Close (Some 0)])"

section \<open>Auxiliary notions for the statements\<close>

text \<open>
  The \<open>isError\<close> flag of the envelope that a call returns; \<open>None\<close> when the call returns
  no envelope (its promise rejects, or never settles).
\<close>

definition envelope_flag :: "envelope promise \<Rightarrow> bool option" where
  "envelope_flag r = (case r of Resolved env \<Rightarrow> Some (isError env) | _ \<Rightarrow> None)"




section \<open>Notions for the statements about the parser\<close>

text \<open>
  The \<open>cleanLine\<close> of a line: the line trimmed, then without its ANSI sequences.
\<close>

definition cleanLine :: "string \<Rightarrow> string" where
  "cleanLine line = strip_ansi (js_trim line)"

text \<open>
  A line that the loop passes over: a blank or banner line, or one whose clean form
  matches neither pattern.
\<close>

definition neutral :: "string \<Rightarrow> bool" where
  "neutral line \<longleftrightarrow>
     is_skipped (js_trim line)
     \<or> (match_project (cleanLine line) = None \<and> match_directory (cleanLine line) = None)"

definition no_newline :: "string \<Rightarrow> bool" where
  "no_newline line \<longleftrightarrow> \<not> list_ex (\<lambda>c. c = CHR 0x0A) line"

text \<open>
  A block of the status text as it is written (the name line, the directory line and the
  lines up to the next block) together with the pieces that its two clean lines are made
  of: white space, the project name, the word \<open>a\<close>, the environment type, the word
  \<open>project\<close>; and white space, the label, white space, the directory.
\<close>

record block =
  name_line :: string
  dir_line :: string
  other_lines :: "string list"
  name_lead :: string
  project :: string
  gap1 :: string
  gap2 :: string
  env_type :: string
  gap3 :: string
  dir_lead :: string
  dir_gap :: string
  directory :: string

definition spaces :: "string \<Rightarrow> bool" where
  "spaces s \<longleftrightarrow> list_all is_space s"

definition word :: "string \<Rightarrow> bool" where
  "word s \<longleftrightarrow> s \<noteq> [] \<and> list_all is_word s"

text \<open>
  A well-formed block: neither line is blank or a banner line; the clean lines are made
  of the pieces; names are words, gaps are white space, not empty where the pattern has
  \<open>\s+\<close>; the directory is not empty, starts with a character that is not white space
  and has no line terminator; the other lines are neutral.
\<close>

definition wf_block :: "block \<Rightarrow> bool" where
  "wf_block b \<longleftrightarrow>
     no_newline (name_line b) \<and> no_newline (dir_line b)
     \<and> list_all (\<lambda>l. no_newline l \<and> neutral l) (other_lines b)
     \<and> \<not> is_skipped (js_trim (name_line b)) \<and> \<not> is_skipped (js_trim (dir_line b))
     \<and> cleanLine (name_line b)
         = name_lead b @ project b @ gap1 b @ ''a'' @ gap2 b @ env_type b @ gap3 b @ ''project''
     \<and> spaces (name_lead b) \<and> word (project b) \<and> word (env_type b)
     \<and> gap1 b \<noteq> [] \<and> spaces (gap1 b) \<and> gap2 b \<noteq> [] \<and> spaces (gap2 b)
     \<and> gap3 b \<noteq> [] \<and> spaces (gap3 b)
     \<and> cleanLine (dir_line b) = dir_lead b @ ''Project Directory:'' @ dir_gap b @ directory b
     \<and> spaces (dir_lead b) \<and> spaces (dir_gap b)
     \<and> directory b \<noteq> [] \<and> \<not> is_space (hd (directory b))
     \<and> \<not> list_ex is_line_term (directory b)"

definition block_lines :: "block \<Rightarrow> string list" where
  "block_lines b = name_line b # dir_line b # other_lines b"

text \<open>
  The record expected for a block.
\<close>

definition block_record :: "block \<Rightarrow> environment" where
  "block_record b = \<lparr>name = project b, path = directory b, raw = dir_line b\<rparr>"

text \<open>
  The escape character that starts an ANSI sequence.
\<close>

definition esc :: string where
  "esc = [CHR 0x1B]"



text \<open>
  Two blocks: one coloured as \<open>warden status\<close> prints it, one plain with wide gaps.
\<close>

definition shop_block :: block where
  "shop_block =
     \<lparr>name_line = ''    '' @ esc @ ''[1;35mshop'' @ esc @ ''[0m a magento2 project'',
      dir_line = ''       Project Directory: '' @ esc @ ''[33m/srv/shop'' @ esc @ ''[0m'',
      other_lines = [''       Project URL: https://app.shop.test'', ''''],
      name_lead = '''', project = ''shop'', gap1 = '' '', gap2 = '' '', env_type = ''magento2'',
      gap3 = '' '', dir_lead = '''', dir_gap = '' '', directory = ''/srv/shop''\<rparr>"

definition blog_block :: block where
  "blog_block =
     \<lparr>name_line = ''    blog_2 a  wordpress project'',
      dir_line = ''       Project Directory:   /home/dev/my blog  '',
      other_lines = [],
      name_lead = '''', project = ''blog_2'', gap1 = '' '', gap2 = ''  '', env_type = ''wordpress'',
      gap3 = '' '', dir_lead = '''', dir_gap = ''   '', directory = ''/home/dev/my blog''\<rparr>"

section \<open>Notions for the statements about the configuration file\<close>










text \<open>
  A world for the initializer: the shell command makes the directory \<open>/new\<close> and
  \<open>warden env init\<close> leaves the given configuration file there.
\<close>

definition env_world :: "string \<Rightarrow> world" where
  "env_world envContent =
     \<lparr>path_resolve = (\<lambda>p. p),
      path_join = (\<lambda>d f. d @ ''/'' @ f),
      process_cwd = ''/srv'',
      spawn = (\<lambda>inv f. ([StdoutData ''ok'', Close (Some 0)], f(''/new/.env'' \<mapsto> File envContent))),
      execSync = (\<lambda>c f. (None, f(''/new'' \<mapsto> Dir)))\<rparr>"


section \<open>Properties of the process runner\<close>





section \<open>Properties of the command formatters\<close>

lemma executeCommand_spawned:
  "executeCommand w cmd argv dir s = (r, s') \<Longrightarrow>
   spawned s' = spawned s @ [(cmd, argv, dir)] \<and> shells s' = shells s"
  by (auto simp: executeCommand_def split: prod.splits)

lemma executeWardenCommand_runs:
  assumes "pp = Some p" "p \<noteq> []" "existsSync (fs s) (path_resolve w (strip_slashes p))"
  shows "spawned (snd (executeWardenCommand w pp argv d s))
           = spawned s @ [(''warden'', argv, path_resolve w (strip_slashes p))]
       \<and> shells (snd (executeWardenCommand w pp argv d s)) = shells s"
  using assms
  by (auto simp: executeWardenCommand_def Let_def split: prod.splits promise.splits
           dest: executeCommand_spawned)

lemma executeWardenCommand_ok:
  assumes "pp = Some p" "p \<noteq> []" "existsSync (fs s) (path_resolve w (strip_slashes p))"
    and "fst (executeCommand w ''warden'' argv (path_resolve w (strip_slashes p)) s) = Resolved r"
    and "code r = Some 0"
  shows "\<exists>env. fst (executeWardenCommand w pp argv d s) = Resolved env \<and> \<not> isError env"
  using assms
  by (auto simp: executeWardenCommand_def Let_def command_report_def text_envelope_def
           split: prod.splits promise.splits)

lemma executeWardenCommand_refuses:
  assumes "pp = None \<or> pp = Some [] \<or> (\<exists>p. pp = Some p \<and> \<not> existsSync (fs s) (path_resolve w (strip_slashes p)))"
  shows "\<exists>e. executeWardenCommand w pp argv d s = (Rejected e, s)"
  using assms
  by (auto simp: executeWardenCommand_def Let_def split: option.splits)

text \<open>
  Claim C9. A database-query call whose project path is given and exists runs the
  \<open>warden\<close> executable once, in the resolved project directory, with exactly the vector
  \<open>env exec -T db mysql -u root -pmagento <database> -e <query>\<close>, where the database is
  \<open>magento\<close> when the caller leaves it out; and when the process runner resolves with exit
  code 0, the call returns an envelope whose \<open>isError\<close> is false. The witness below is
  the call with query \<open>SELECT 1\<close> and database \<open>magento\<close>.
\<close>

theorem runDbQuery_argument_vector:
  assumes "project_path a = Some p" and "p \<noteq> []"
    and "existsSync (fs s) (path_resolve w (strip_slashes p))"
    and "query a = Some q"
  shows "spawned (snd (runDbQuery w a s))
           = spawned s @
             [(''warden'',
               [Some ''env'', Some ''exec'', Some ''-T'', Some ''db'', Some ''mysql'', Some ''-u'',
                Some ''root'', Some ''-pmagento'', Some (default_to ''magento'' (database a)),
                Some ''-e'', Some q],
               path_resolve w (strip_slashes p))]
       \<and> (\<forall>r. fst (executeCommand w ''warden''
                   [Some ''env'', Some ''exec'', Some ''-T'', Some ''db'', Some ''mysql'', Some ''-u'',
                    Some ''root'', Some ''-pmagento'', Some (default_to ''magento'' (database a)),
                    Some ''-e'', Some q]
                   (path_resolve w (strip_slashes p)) s) = Resolved r \<and> code r = Some 0 \<longrightarrow>
              (\<exists>env. fst (runDbQuery w a s) = Resolved env \<and> isError env = False))"
  using assms executeWardenCommand_runs [of "project_path a" p s w] 
    executeWardenCommand_ok [of "project_path a" p s w]
  by (simp add: runDbQuery_def Let_def)

theorem runDbQuery_argument_vector_witness:
  "spawned (snd (runDbQuery (stub_world (\<lambda>v. [StdoutData ''1'', Close (Some 0)]))
        (no_args\<lparr>project_path := Some ''/p'', query := Some ''SELECT 1'',
                  database := Some ''magento''\<rparr>)
        (on_disk [(''/p'', Dir)])))
     = [(''warden'',
         [Some ''env'', Some ''exec'', Some ''-T'', Some ''db'', Some ''mysql'', Some ''-u'',
          Some ''root'', Some ''-pmagento'', Some ''magento'', Some ''-e'', Some ''SELECT 1''],
         ''/p'')]
   \<and> (\<exists>env. fst (runDbQuery (stub_world (\<lambda>v. [StdoutData ''1'', Close (Some 0)]))
        (no_args\<lparr>project_path := Some ''/p'', query := Some ''SELECT 1'',
                  database := Some ''magento''\<rparr>)
        (on_disk [(''/p'', Dir)])) = Resolved env \<and> isError env = False)"
proof -
  let ?w = "stub_world (\<lambda>v. [StdoutData ''1'', Close (Some 0)])"
  let ?a = "no_args\<lparr>project_path := Some ''/p'', query := Some ''SELECT 1'',
                  database := Some ''magento''\<rparr>"
  let ?s = "on_disk [(''/p'', Dir)]"
  have p: "project_path ?a = Some ''/p''" "''/p'' \<noteq> []" "query ?a = Some ''SELECT 1''"
    by (simp_all add: no_args_def)
  have r: "path_resolve ?w (strip_slashes ''/p'') = ''/p''"
    by (simp add: stub_world_def strip_slashes_def drop_trailing_def)
  have x: "existsSync (fs ?s) (path_resolve ?w (strip_slashes ''/p''))"
    by (simp add: r) (simp add: existsSync_def on_disk_def)
  have d: "default_to ''magento'' (database ?a) = ''magento''"
    by (simp add: no_args_def default_to_def)
  have e: "fst (executeCommand ?w ''warden''
             [Some ''env'', Some ''exec'', Some ''-T'', Some ''db'', Some ''mysql'', Some ''-u'',
              Some ''root'', Some ''-pmagento'', Some ''magento'', Some ''-e'', Some ''SELECT 1'']
             ''/p'' ?s) = Resolved \<lparr>stdout = ''1'', stderr = [], code = Some 0\<rparr>"
    by (simp add: executeCommand_def stub_world_def)
  from runDbQuery_argument_vector [OF p(1) p(2) x p(3)] e show ?thesis
    unfolding d r by (simp add: on_disk_def)
qed

lemma composer_execute_spawned:
  "spawned (snd (composer_execute w cc c dir s))
     = spawned s @ [(''warden'',
          map Some ([''env'', ''exec'', ''-T'', ''php-fpm'', cc] @ split_ws (js_trim c)), dir)]"
  by (auto simp: composer_execute_def Let_def split: prod.splits promise.splits
           dest: executeCommand_spawned)

text \<open>
  Claim C5. In a \<open>warden_composer\<close> call that has passed validation, if \<open>which composer2\<close>
  ends with a non-zero code, \<open>which composer\<close> ends with code 0 and \<open>composer --version\<close>
  ends with code 0 and an output that, in lower case, does not contain
  \<open>composer version 2\<close>, then the call returns the envelope "Composer version 2 is
  required!" with the version found and \<open>isError = true\<close>, and the process runner has been
  invoked for the three probes only: the user's command is never run.
\<close>

theorem runComposer_unsupported_version:
  assumes "project_path a = Some p" and "p \<noteq> []" and "command a = Some c" and "c \<noteq> []"
    and "existsSync (fs s) (path_resolve w (strip_slashes p))"
    and "executeCommand w ''warden'' which_composer2 (path_resolve w (strip_slashes p)) s
           = (Resolved r1, s1)"
    and "code r1 \<noteq> Some 0"
    and "executeCommand w ''warden'' which_composer (path_resolve w (strip_slashes p)) s1
           = (Resolved r2, s2)"
    and "code r2 = Some 0"
    and "executeCommand w ''warden'' composer_version_check (path_resolve w (strip_slashes p)) s2
           = (Resolved r3, s3)"
    and "code r3 = Some 0"
    and "\<not> js_includes (toLowerCase (stdout r3)) ''composer version 2''"
  shows "fst (runComposer w a s)
           = Resolved \<lparr>content =
               [Text (''Composer version 2 is required!\<newline>\<newline>Found: '' @ js_trim (stdout r3)
                  @ ''\<newline>\<newline>Please install or upgrade to Composer version 2.'')],
               isError = True\<rparr>
       \<and> spawned (snd (runComposer w a s))
           = spawned s @
             [(''warden'', which_composer2, path_resolve w (strip_slashes p)),
              (''warden'', which_composer, path_resolve w (strip_slashes p)),
              (''warden'', composer_version_check, path_resolve w (strip_slashes p))]"
  using assms executeCommand_spawned [OF assms(6)] executeCommand_spawned [OF assms(8)]
    executeCommand_spawned [OF assms(10)]
  by (simp add: runComposer_def Let_def version_2_required_def text_envelope_def)

lemma split_ws_eq:
  "split_ws s =
     (if dropWhile (\<lambda>c. \<not> is_space c) s = [] then [takeWhile (\<lambda>c. \<not> is_space c) s]
      else takeWhile (\<lambda>c. \<not> is_space c) s
             # split_ws (dropWhile is_space (dropWhile (\<lambda>c. \<not> is_space c) s)))"
  by (subst split_ws.simps) (simp only: Let_def)



lemma split_ws_last:
  "dropWhile (\<lambda>c. \<not> is_space c) s = [] \<Longrightarrow> split_ws s = [takeWhile (\<lambda>c. \<not> is_space c) s]"
  by (subst split_ws_eq) (simp only: simp_thms if_True)

lemma split_ws_more:
  "dropWhile (\<lambda>c. \<not> is_space c) s \<noteq> [] \<Longrightarrow>
   split_ws s = takeWhile (\<lambda>c. \<not> is_space c) s
                  # split_ws (dropWhile is_space (dropWhile (\<lambda>c. \<not> is_space c) s))"
  by (subst split_ws_eq) (simp only: simp_thms if_False)


theorem runComposer_unsupported_version_witness:
  "fst (runComposer (stub_world composer1_container)
          (no_args\<lparr>project_path := Some ''/p'', command := Some ''install''\<rparr>)
          (on_disk [(''/p'', Dir)]))
     = Resolved \<lparr>content =
         [Text (''Composer version 2 is required!\<newline>\<newline>Found: Composer version 1.10.26 2022-04-13''
            @ ''\<newline>\<newline>Please install or upgrade to Composer version 2.'')],
         isError = True\<rparr>
   \<and> spawned (snd (runComposer (stub_world composer1_container)
          (no_args\<lparr>project_path := Some ''/p'', command := Some ''install''\<rparr>)
          (on_disk [(''/p'', Dir)])))
     = [(''warden'', which_composer2, ''/p''), (''warden'', which_composer, ''/p''),
        (''warden'', composer_version_check, ''/p'')]"
proof -
  let ?w = "stub_world composer1_container"
  let ?a = "no_args\<lparr>project_path := Some ''/p'', command := Some ''install''\<rparr>"
  let ?s = "on_disk [(''/p'', Dir)]"
  let ?s1 = "?s\<lparr>spawned := [(''warden'', which_composer2, ''/p'')]\<rparr>"
  let ?s2 = "?s\<lparr>spawned := [(''warden'', which_composer2, ''/p''), (''warden'', which_composer, ''/p'')]\<rparr>"
  let ?s3 = "?s\<lparr>spawned := [(''warden'', which_composer2, ''/p''), (''warden'', which_composer, ''/p''),
                               (''warden'', composer_version_check, ''/p'')]\<rparr>"
  let ?r3 = "\<lparr>stdout = ''Composer version 1.10.26 2022-04-13'', stderr = [], code = Some 0\<rparr>"
  have r: "path_resolve ?w (strip_slashes ''/p'') = ''/p''"
    by (simp add: stub_world_def strip_slashes_def drop_trailing_def)
  have v: "project_path ?a = Some ''/p''" "''/p'' \<noteq> []" "command ?a = Some ''install''"
    "''install'' \<noteq> []"
    by (simp_all add: no_args_def)
  have x: "existsSync (fs ?s) (path_resolve ?w (strip_slashes ''/p''))"
    unfolding r by (simp add: existsSync_def on_disk_def)
  have e1: "executeCommand ?w ''warden'' which_composer2 (path_resolve ?w (strip_slashes ''/p'')) ?s
      = (Resolved \<lparr>stdout = [], stderr = [], code = Some 1\<rparr>, ?s1)"
    unfolding r
    by (simp add: executeCommand_def stub_world_def composer1_container_def on_disk_def)
  have e2: "executeCommand ?w ''warden'' which_composer (path_resolve ?w (strip_slashes ''/p'')) ?s1
      = (Resolved \<lparr>stdout = ''/usr/bin/composer'', stderr = [], code = Some 0\<rparr>, ?s2)"
    unfolding r
    by (simp add: executeCommand_def stub_world_def composer1_container_def on_disk_def
        which_composer_def which_composer2_def composer_version_check_def)
  have e3: "executeCommand ?w ''warden'' composer_version_check
        (path_resolve ?w (strip_slashes ''/p'')) ?s2 = (Resolved ?r3, ?s3)"
    unfolding r
    by (simp add: executeCommand_def stub_world_def composer1_container_def on_disk_def
        which_composer_def which_composer2_def composer_version_check_def)
  have m: "\<not> js_includes (toLowerCase (stdout ?r3)) ''composer version 2''"
    by (simp add: toLowerCase_def to_lower_def)
  have t: "js_trim (stdout ?r3) = ''Composer version 1.10.26 2022-04-13''"
    by (simp add: js_trim_def drop_trailing_def is_space_def)
  from runComposer_unsupported_version [OF v(1) v(2) v(3) v(4) x e1 _ e2 _ e3 _ m]
  show ?thesis unfolding r t by (simp add: on_disk_def)
qed




lemma executeWardenCommand_steps:
  "prefix (spawned s) (spawned (snd (executeWardenCommand w pp argv d s)))
   \<and> length (spawned (snd (executeWardenCommand w pp argv d s))) \<le> length (spawned s) + 1
   \<and> shells (snd (executeWardenCommand w pp argv d s)) = shells s"
  by (auto simp: executeWardenCommand_def Let_def split: option.splits prod.splits promise.splits
           dest: executeCommand_spawned)

lemma runUnitTests_steps:
  "prefix (spawned s) (spawned (snd (runUnitTests w a s)))
   \<and> length (spawned (snd (runUnitTests w a s))) \<le> length (spawned s) + 1
   \<and> shells (snd (runUnitTests w a s)) = shells s"
  by (auto simp: runUnitTests_def Let_def split: option.splits prod.splits promise.splits
           dest: executeCommand_spawned)

lemma listEnvironments_steps:
  "prefix (spawned s) (spawned (snd (listEnvironments w s)))
   \<and> length (spawned (snd (listEnvironments w s))) = length (spawned s) + 1
   \<and> shells (snd (listEnvironments w s)) = shells s"
  by (auto simp: listEnvironments_def Let_def split: option.splits prod.splits promise.splits
           dest: executeCommand_spawned)

lemma initProject_steps:
  "prefix (spawned s) (spawned (snd (initProject w a s)))
   \<and> length (spawned (snd (initProject w a s))) \<le> length (spawned s) + 1
   \<and> prefix (shells s) (shells (snd (initProject w a s)))
   \<and> length (shells (snd (initProject w a s))) \<le> length (shells s) + 1"
  by (auto simp: initProject_def Let_def split: option.splits prod.splits promise.splits fs_node.splits
           dest!: executeCommand_spawned)

lemma composer_execute_shells:
  "shells (snd (composer_execute w cc c dir s)) = shells s"
  by (auto simp: composer_execute_def Let_def split: prod.splits promise.splits
           dest: executeCommand_spawned)

lemma runComposer_steps:
  "prefix (spawned s) (spawned (snd (runComposer w a s)))
   \<and> length (spawned (snd (runComposer w a s))) \<le> length (spawned s) + 4
   \<and> shells (snd (runComposer w a s)) = shells s"
  by (auto simp: runComposer_def Let_def composer_execute_spawned composer_execute_shells
           split: option.splits prod.splits promise.splits
           dest!: executeCommand_spawned)

section \<open>Properties of the tool calls\<close>

lemmas run_defs =
  call_tool_def startProject_def stopProject_def startSvc_def stopSvc_def runDbQuery_def
  runPhpScript_def runMagentoCli_def

lemma in_set_list_all: "x \<in> set xs \<Longrightarrow> list_all P xs \<Longrightarrow> P x"
  by (simp add: list_all_iff)

lemma runComposer_refuses:
  assumes "project_path a = None \<or> project_path a = Some [] \<or> command a = None
         \<or> (\<exists>p. project_path a = Some p
               \<and> \<not> existsSync (fs s) (path_resolve w (strip_slashes p)))"
  shows "\<exists>e. runComposer w a s = (Rejected e, s)"
  using assms by (auto simp: runComposer_def Let_def split: option.splits)



lemma project_tools_refuse:
  assumes c: "project_path a = None \<or> project_path a = Some []
         \<or> (\<exists>p. project_path a = Some p
               \<and> \<not> existsSync (fs s) (path_resolve w (strip_slashes p)))"
  shows "list_all (\<lambda>t. \<exists>e. call_tool w t a s = (Rejected e, s))
           [''warden_start_project'', ''warden_stop_project'', ''warden_start_svc'',
            ''warden_stop_svc'', ''warden_db_query'', ''warden_php_script'',
            ''warden_magento_cli'', ''warden_composer'']"
proof -
  note r = executeWardenCommand_refuses [OF c]
  from c have c': "project_path a = None \<or> project_path a = Some [] \<or> command a = None
         \<or> (\<exists>p. project_path a = Some p
               \<and> \<not> existsSync (fs s) (path_resolve w (strip_slashes p)))" by blast
  note r' = runComposer_refuses [OF c']
  show ?thesis by (simp add: run_defs Let_def r r')
qed


text \<open>
  Claim C4, amended. For the lifecycle tools, the database, PHP and Magento tools and
  the dependency manager: when the given project path, with its trailing separators
  stripped and resolved, does not exist on disk, the call fails by
  raising an error (no envelope is returned) and the state is unchanged, so the process
  runner was not invoked. The project initializer does not test the directory: the first
  thing it does with the resolved path is to run \<open>mkdir -p\<close> on it. Nothing is said of the
  test runner.
\<close>

theorem missing_directory:
  assumes "tool \<in> set [''warden_start_project'', ''warden_stop_project'', ''warden_start_svc'',
             ''warden_stop_svc'', ''warden_db_query'', ''warden_php_script'',
             ''warden_magento_cli'', ''warden_composer'']"
    and "project_path a = Some p"
    and "\<not> existsSync (fs s) (path_resolve w (strip_slashes p))"
  shows "(\<exists>e. call_tool w tool a s = (Rejected e, s))
       \<and> shells (snd (call_tool w ''warden_init_project'' a s))
           = shells s @ [''mkdir -p \"'' @ path_resolve w p @ ''\"'']"
proof
  from assms(2,3) have "list_all (\<lambda>t. \<exists>e. call_tool w t a s = (Rejected e, s))
           [''warden_start_project'', ''warden_stop_project'', ''warden_start_svc'',
            ''warden_stop_svc'', ''warden_db_query'', ''warden_php_script'',
            ''warden_magento_cli'', ''warden_composer'']"
    by (intro project_tools_refuse) simp
  from in_set_list_all [OF assms(1) this]
  show "\<exists>e. call_tool w tool a s = (Rejected e, s)" .
next
  have "shells (snd (initProject w a s)) = shells s @ [''mkdir -p \"'' @ path_resolve w p @ ''\"'']"
    using assms(2)
    by (auto simp: initProject_def Let_def
             split: prod.splits option.splits promise.splits fs_node.splits
             dest!: executeCommand_spawned)
  then show "shells (snd (call_tool w ''warden_init_project'' a s))
           = shells s @ [''mkdir -p \"'' @ path_resolve w p @ ''\"'']"
    by (simp add: call_tool_def)
qed

lemma prefix_bound:
  "prefix xs ys \<Longrightarrow> length ys \<le> length xs + k \<Longrightarrow> \<exists>new. ys = xs @ new \<and> length new \<le> k"
  by (auto simp: prefix_def)

lemma executeWardenCommand_new:
  "\<exists>new. spawned (snd (executeWardenCommand w pp argv d s)) = spawned s @ new \<and> length new \<le> 1"
  using executeWardenCommand_steps [of s w pp argv d] by (intro prefix_bound) simp_all

lemma runUnitTests_new:
  "\<exists>new. spawned (snd (runUnitTests w a s)) = spawned s @ new \<and> length new \<le> 1"
  using runUnitTests_steps [of s w a] by (intro prefix_bound) simp_all

lemma listEnvironments_new:
  "\<exists>new. spawned (snd (listEnvironments w s)) = spawned s @ new \<and> length new \<le> 1"
  using listEnvironments_steps [of s w] by (intro prefix_bound) simp_all

lemma initProject_new:
  "\<exists>new. spawned (snd (initProject w a s)) = spawned s @ new \<and> length new \<le> 1"
  using initProject_steps [of s w a] by (intro prefix_bound) simp_all

lemma initProject_new_shells:
  "\<exists>sh. shells (snd (initProject w a s)) = shells s @ sh \<and> length sh \<le> 1"
  using initProject_steps [of s w a] by (intro prefix_bound) simp_all

lemma runComposer_new:
  "\<exists>new. spawned (snd (runComposer w a s)) = spawned s @ new \<and> length new \<le> 4"
  using runComposer_steps [of s w a] by (intro prefix_bound) simp_all

lemmas new_facts =
  executeWardenCommand_new runUnitTests_new listEnvironments_new initProject_new
  initProject_new_shells runComposer_new

lemmas shell_facts =
  executeWardenCommand_steps [THEN conjunct2, THEN conjunct2]
  runUnitTests_steps [THEN conjunct2, THEN conjunct2]
  listEnvironments_steps [THEN conjunct2, THEN conjunct2]
  runComposer_steps [THEN conjunct2, THEN conjunct2]

lemma project_tools_run:
  assumes "project_path a = Some p" and "p \<noteq> []"
    and "existsSync (fs s) (path_resolve w (strip_slashes p))"
  shows "list_all (\<lambda>t. length (spawned (snd (call_tool w t a s))) = length (spawned s) + 1)
           [''warden_start_project'', ''warden_stop_project'', ''warden_start_svc'',
            ''warden_stop_svc'', ''warden_db_query'', ''warden_php_script'',
            ''warden_magento_cli'']"
  by (simp add: run_defs Let_def executeWardenCommand_runs [OF assms])

text \<open>
  Claim C6, amended. A tool call invokes the process runner at most once, exactly once
  for the environment list and for a lifecycle, database, PHP or Magento call whose
  project path is given and exists, except \<open>warden_composer\<close>, which invokes it at most four
  times (three probes and the user's command), one after the other. Besides, the
  project initializer runs at most one shell command through \<open>execSync\<close>, and no other
  tool runs any.
\<close>

theorem invocation_bounds:
  "(\<exists>new. spawned (snd (call_tool w tool a s)) = spawned s @ new
        \<and> length new \<le> (if tool = ''warden_composer'' then 4 else 1))
   \<and> (\<exists>sh. shells (snd (call_tool w tool a s)) = shells s @ sh
        \<and> length sh \<le> (if tool = ''warden_init_project'' then 1 else 0))
   \<and> length (spawned (snd (call_tool w ''warden_list_environments'' a s)))
        = length (spawned s) + 1
   \<and> (tool \<in> set [''warden_start_project'', ''warden_stop_project'', ''warden_start_svc'',
                   ''warden_stop_svc'', ''warden_db_query'', ''warden_php_script'',
                   ''warden_magento_cli'']
        \<and> project_path a = Some p \<and> p \<noteq> []
        \<and> existsSync (fs s) (path_resolve w (strip_slashes p)) \<longrightarrow>
        length (spawned (snd (call_tool w tool a s))) = length (spawned s) + 1)"
proof (intro conjI impI)
  show "\<exists>new. spawned (snd (call_tool w tool a s)) = spawned s @ new
        \<and> length new \<le> (if tool = ''warden_composer'' then 4 else 1)"
    by (simp add: run_defs Let_def new_facts [unfolded One_nat_def])
next
  show "\<exists>sh. shells (snd (call_tool w tool a s)) = shells s @ sh
        \<and> length sh \<le> (if tool = ''warden_init_project'' then 1 else 0)"
    by (simp add: run_defs Let_def new_facts [unfolded One_nat_def] shell_facts)
next
  show "length (spawned (snd (call_tool w ''warden_list_environments'' a s)))
        = length (spawned s) + 1"
    using listEnvironments_steps [of s w] by (simp add: call_tool_def)
next
  assume h: "tool \<in> set [''warden_start_project'', ''warden_stop_project'', ''warden_start_svc'',
                   ''warden_stop_svc'', ''warden_db_query'', ''warden_php_script'',
                   ''warden_magento_cli'']
        \<and> project_path a = Some p \<and> p \<noteq> []
        \<and> existsSync (fs s) (path_resolve w (strip_slashes p))"
  then have t: "tool \<in> set [''warden_start_project'', ''warden_stop_project'', ''warden_start_svc'',
                   ''warden_stop_svc'', ''warden_db_query'', ''warden_php_script'',
                   ''warden_magento_cli'']" ..
  from h have "list_all (\<lambda>t. length (spawned (snd (call_tool w t a s))) = length (spawned s) + 1)
           [''warden_start_project'', ''warden_stop_project'', ''warden_start_svc'',
            ''warden_stop_svc'', ''warden_db_query'', ''warden_php_script'',
            ''warden_magento_cli'']"
    by (intro project_tools_run [of a p s w]) simp_all
  from in_set_list_all [OF t this]
  show "length (spawned (snd (call_tool w tool a s))) = length (spawned s) + 1" .
qed

lemmas stub_defs =
  stub_world_def on_disk_def existsSync_def strip_slashes_def drop_trailing_def no_args_def
  default_to_def executeCommand_def Let_def


text \<open>
  Claim C4 as stated fails for the project initializer: on a path that does not exist
  it makes the directory, invokes the process runner and, the process ending with code
  0, returns \<open>isError = false\<close>.
\<close>

theorem missing_directory_counterexample:
  "\<not> existsSync (fs (on_disk [])) (path_resolve (env_world ''PHP_VERSION=8.1'') (strip_slashes ''/new''))
   \<and> envelope_flag (fst (call_tool (env_world ''PHP_VERSION=8.1'') ''warden_init_project''
          (no_args\<lparr>project_path := Some ''/new'', project_name := Some ''shop''\<rparr>)
          (on_disk []))) = Some False
   \<and> spawned (snd (call_tool (env_world ''PHP_VERSION=8.1'') ''warden_init_project''
          (no_args\<lparr>project_path := Some ''/new'', project_name := Some ''shop''\<rparr>)
          (on_disk [])))
     = [(''warden'', [Some ''env'', Some ''init'', Some ''shop'', Some ''magento2''], ''/new'')]
   \<and> shells (snd (call_tool (env_world ''PHP_VERSION=8.1'') ''warden_init_project''
          (no_args\<lparr>project_path := Some ''/new'', project_name := Some ''shop''\<rparr>)
          (on_disk [])))
     = [''mkdir -p \"/new\"'']"
  by (simp add: call_tool_def initProject_def env_world_def stub_defs envelope_flag_def
      init_success_def text_envelope_def)

text \<open>
  Claim C6 as stated fails: where \<open>composer2\<close> is missing and \<open>composer\<close> is version 2, one
  \<open>warden_composer\<close> call invokes the process runner four times.
\<close>

theorem invocation_count_counterexample:
  "spawned (snd (call_tool (stub_world composer2_container) ''warden_composer''
          (no_args\<lparr>project_path := Some ''/p'', command := Some ''install''\<rparr>)
          (on_disk [(''/p'', Dir)])))
     = [(''warden'', which_composer2, ''/p''),
        (''warden'', which_composer, ''/p''),
        (''warden'', composer_version_check, ''/p''),
        (''warden'',
         [Some ''env'', Some ''exec'', Some ''-T'', Some ''php-fpm'', Some ''composer'',
          Some ''install''], ''/p'')]"
  by (simp add: call_tool_def runComposer_def composer_execute_def composer2_container_def
      stub_defs which_composer2_def which_composer_def composer_version_check_def
      toLowerCase_def to_lower_def js_trim_def is_space_def split_ws_last split_ws_more)


theorem missing_directory_witness:
  "\<not> existsSync (fs (on_disk [(''/p'', Dir)]))
        (path_resolve (stub_world (\<lambda>v. [Close (Some 0)])) (strip_slashes ''/gone/''))
   \<and> (\<exists>e. call_tool (stub_world (\<lambda>v. [Close (Some 0)])) ''warden_db_query''
              (no_args\<lparr>project_path := Some ''/gone/'', query := Some ''SELECT 1''\<rparr>)
              (on_disk [(''/p'', Dir)]) = (Rejected e, on_disk [(''/p'', Dir)]))
   \<and> shells (snd (call_tool (stub_world (\<lambda>v. [Close (Some 0)])) ''warden_init_project''
              (no_args\<lparr>project_path := Some ''/gone/'', query := Some ''SELECT 1''\<rparr>)
              (on_disk [(''/p'', Dir)])))
       = [''mkdir -p \"/gone/\"'']"
proof -
  let ?w = "stub_world (\<lambda>v. [Close (Some 0)])"
  let ?a = "no_args\<lparr>project_path := Some ''/gone/'', query := Some ''SELECT 1''\<rparr>"
  let ?s = "on_disk [(''/p'', Dir)]"
  have t: "''warden_db_query'' \<in> set [''warden_start_project'', ''warden_stop_project'',
        ''warden_start_svc'', ''warden_stop_svc'', ''warden_db_query'', ''warden_php_script'',
        ''warden_magento_cli'', ''warden_composer'']"
    by simp
  have p: "project_path ?a = Some ''/gone/''" "''/gone/'' \<noteq> []"
    by (simp_all add: no_args_def)
  have x: "\<not> existsSync (fs ?s) (path_resolve ?w (strip_slashes ''/gone/''))"
    by (simp add: stub_defs)
  have sh: "shells ?s = []" "path_resolve ?w ''/gone/'' = ''/gone/''"
    by (simp_all add: stub_defs)
  from missing_directory [OF t p(1) x] x show ?thesis
    unfolding sh by simp
qed

theorem invocation_bounds_witness:
  "''warden_start_project'' \<in> set [''warden_start_project'', ''warden_stop_project'',
        ''warden_start_svc'', ''warden_stop_svc'', ''warden_db_query'', ''warden_php_script'',
        ''warden_magento_cli'']
   \<and> existsSync (fs (on_disk [(''/p'', Dir)]))
        (path_resolve (stub_world (\<lambda>v. [Close (Some 0)])) (strip_slashes ''/p''))
   \<and> length (spawned (snd (call_tool (stub_world (\<lambda>v. [Close (Some 0)])) ''warden_start_project''
        (no_args\<lparr>project_path := Some ''/p''\<rparr>) (on_disk [(''/p'', Dir)])))) = 1
   \<and> length (spawned (snd (call_tool (stub_world (\<lambda>v. [Close (Some 0)]))
        ''warden_list_environments''
        (no_args\<lparr>project_path := Some ''/p''\<rparr>) (on_disk [(''/p'', Dir)])))) = 1"
proof -
  let ?w = "stub_world (\<lambda>v. [Close (Some 0)])"
  let ?a = "no_args\<lparr>project_path := Some ''/p''\<rparr>"
  let ?s = "on_disk [(''/p'', Dir)]"
  have t: "''warden_start_project'' \<in> set [''warden_start_project'', ''warden_stop_project'',
        ''warden_start_svc'', ''warden_stop_svc'', ''warden_db_query'', ''warden_php_script'',
        ''warden_magento_cli'']"
    by simp
  have p: "project_path ?a = Some ''/p''" "''/p'' \<noteq> []"
    by (simp_all add: no_args_def)
  have x: "existsSync (fs ?s) (path_resolve ?w (strip_slashes ''/p''))"
    by (simp add: stub_defs)
  have z: "spawned ?s = []"
    by (simp add: stub_defs)
  from invocation_bounds [of ?w "''warden_start_project''" ?a ?s "''/p''"] t p x
  show ?thesis unfolding z by simp
qed


section \<open>Properties of the environment list parser\<close>

lemma word_not_space: "is_word c \<Longrightarrow> \<not> is_space c"
  by (auto simp: is_word_def is_space_def)

lemma dropWhile_all: "list_all P xs \<Longrightarrow> dropWhile P (xs @ ys) = dropWhile P ys"
  by (induction xs) simp_all

lemma takeWhile_all: "list_all P xs \<Longrightarrow> takeWhile P (xs @ ys) = xs @ takeWhile P ys"
  by (induction xs) simp_all

lemma dropWhile_hd: "ys \<noteq> [] \<Longrightarrow> \<not> P (hd ys) \<Longrightarrow> dropWhile P (ys @ zs) = ys @ zs"
  by (cases ys) simp_all

lemma takeWhile_hd: "ys \<noteq> [] \<Longrightarrow> \<not> P (hd ys) \<Longrightarrow> takeWhile P (ys @ zs) = []"
  by (cases ys) simp_all

lemma spaces_hd_not_word: "g \<noteq> [] \<Longrightarrow> spaces g \<Longrightarrow> \<not> is_word (hd g)"
  by (cases g) (auto simp: spaces_def dest: word_not_space)

lemma word_hd_not_space: "word n \<Longrightarrow> \<not> is_space (hd n)"
  by (cases n) (auto simp: word_def dest: word_not_space)

lemma match_project_shape:
  assumes "spaces lead" and n: "word n" and "g1 \<noteq> []" "spaces g1" and "g2 \<noteq> []" "spaces g2"
    and t: "word ty" and "g3 \<noteq> []" "spaces g3"
  shows "match_project (lead @ n @ g1 @ ''a'' @ g2 @ ty @ g3 @ ''project'') = Some n"
proof -
  let ?t3 = "g3 @ ''project''"
  let ?t2 = "g2 @ ty @ ?t3"
  let ?t1 = "g1 @ ''a'' @ ?t2"
  have s1: "dropWhile is_space (lead @ n @ ?t1) = n @ ?t1"
    using assms(1) n word_hd_not_space [OF n]
    by (simp add: dropWhile_all spaces_def dropWhile_hd word_def)
  have nm: "takeWhile is_word (n @ ?t1) = n"
    using n spaces_hd_not_word [OF assms(3,4)]
    by (simp add: word_def takeWhile_all takeWhile_hd assms(3))
  have r1: "dropWhile is_word (n @ ?t1) = ?t1"
    using n spaces_hd_not_word [OF assms(3,4)]
    by (simp add: word_def dropWhile_all dropWhile_hd assms(3))
  have r2: "dropWhile is_space ?t1 = ''a'' @ ?t2"
    using assms(4) by (simp add: spaces_def dropWhile_all is_space_def)
  have ne1: "?t1 \<noteq> ''a'' @ ?t2"
  proof
    assume "?t1 = ''a'' @ ?t2"
    then have "length ?t1 = length (''a'' @ ?t2)" by (rule arg_cong)
    with assms(3) show False by simp
  qed
  have r4: "dropWhile is_space ?t2 = ty @ ?t3"
    using assms(6) t word_hd_not_space [OF t]
    by (simp add: spaces_def dropWhile_all dropWhile_hd word_def)
  have ne2: "?t2 \<noteq> ty @ ?t3"
  proof
    assume "?t2 = ty @ ?t3"
    then have "length ?t2 = length (ty @ ?t3)" by (rule arg_cong)
    with assms(5) show False by simp
  qed
  have tw: "takeWhile is_word (ty @ ?t3) = ty"
    using t spaces_hd_not_word [OF assms(8,9)]
    by (simp add: word_def takeWhile_all takeWhile_hd assms(8))
  have r5: "dropWhile is_word (ty @ ?t3) = ?t3"
    using t spaces_hd_not_word [OF assms(8,9)]
    by (simp add: word_def dropWhile_all dropWhile_hd assms(8))
  have r6: "dropWhile is_space ?t3 = ''project''"
    using assms(9) by (simp add: spaces_def dropWhile_all is_space_def)
  have ne3: "?t3 \<noteq> ''project''"
  proof
    assume "?t3 = ''project''"
    then have "length ?t3 = length ''project''" by (rule arg_cong)
    with assms(8) show False by simp
  qed
  from n t have "n \<noteq> []" "ty \<noteq> []" by (simp_all add: word_def)
  then show ?thesis
    unfolding match_project_def Let_def s1 nm r1 r2
    using ne1 ne2 ne3 by (simp add: r4 tw r5 r6)
qed

lemma match_directory_shape:
  assumes "spaces lead" and "spaces gap" and "p \<noteq> []" and "\<not> is_space (hd p)"
    and "\<not> list_ex is_line_term p"
  shows "match_directory (lead @ ''Project Directory:'' @ gap @ p) = Some p"
proof -
  have s1: "dropWhile is_space (lead @ ''Project Directory:'' @ gap @ p)
      = ''Project Directory:'' @ gap @ p"
    using assms(1) by (simp add: spaces_def dropWhile_all is_space_def)
  have tw: "takeWhile is_space (gap @ p) = gap"
    using assms(2,3,4) by (simp add: spaces_def takeWhile_all takeWhile_hd [where zs = "[]", simplified])
  have dw: "dropWhile is_space (gap @ p) = p"
    using assms(2,3,4) by (simp add: spaces_def dropWhile_all dropWhile_hd [where zs = "[]", simplified])
  show ?thesis
    unfolding match_directory_def Let_def s1
    using assms(3,5) by (simp add: tw dw)
qed

lemma match_project_directory:
  assumes "spaces lead"
  shows "match_project (lead @ ''Project Directory:'' @ rest) = None"
proof -
  have s1: "dropWhile is_space (lead @ ''Project Directory:'' @ rest)
      = ''Project Directory:'' @ rest"
    using assms by (simp add: spaces_def dropWhile_all is_space_def)
  show ?thesis
    unfolding match_project_def Let_def s1
    by (simp add: is_word_def is_space_def)
qed

lemma parse_line_neutral: "neutral l \<Longrightarrow> parse_line st l = st"
  by (cases st)
     (auto simp: neutral_def parse_line_def cleanLine_def Let_def split: option.splits)

lemma parse_line_name:
  assumes "\<not> is_skipped (js_trim l)" and "match_project (cleanLine l) = Some n"
  shows "parse_line (envs, cur) l = (envs, Some n)"
  using assms by (simp add: parse_line_def cleanLine_def Let_def)

lemma parse_line_directory:
  assumes "\<not> is_skipped (js_trim l)" and "match_project (cleanLine l) = None"
    and "match_directory (cleanLine l) = Some p"
  shows "parse_line (envs, Some n) l = (envs @ [\<lparr>name = n, path = p, raw = l\<rparr>], None)"
  using assms by (simp add: parse_line_def cleanLine_def Let_def)

lemma foldl_neutral: "list_all neutral ls \<Longrightarrow> foldl parse_line st ls = st"
  by (induction ls arbitrary: st) (simp_all add: parse_line_neutral)

lemma parse_block:
  assumes "wf_block b"
  shows "foldl parse_line (envs, cur) (block_lines b) = (envs @ [block_record b], None)"
proof -
  from assms have cn: "cleanLine (name_line b)
      = name_lead b @ project b @ gap1 b @ ''a'' @ gap2 b @ env_type b @ gap3 b @ ''project''"
    and cd: "cleanLine (dir_line b) = dir_lead b @ ''Project Directory:'' @ dir_gap b @ directory b"
    and sh: "spaces (name_lead b)" "word (project b)" "gap1 b \<noteq> []" "spaces (gap1 b)"
      "gap2 b \<noteq> []" "spaces (gap2 b)" "word (env_type b)" "gap3 b \<noteq> []" "spaces (gap3 b)"
    and dh: "spaces (dir_lead b)" "spaces (dir_gap b)" "directory b \<noteq> []"
      "\<not> is_space (hd (directory b))" "\<not> list_ex is_line_term (directory b)"
    by (simp_all add: wf_block_def)
  have nm: "match_project (cleanLine (name_line b)) = Some (project b)"
    unfolding cn by (rule match_project_shape [OF sh])
  have d1: "match_project (cleanLine (dir_line b)) = None"
    unfolding cd by (rule match_project_directory [OF dh(1)])
  have d2: "match_directory (cleanLine (dir_line b)) = Some (directory b)"
    unfolding cd by (rule match_directory_shape [OF dh])
  from assms have sk: "\<not> is_skipped (js_trim (name_line b))" "\<not> is_skipped (js_trim (dir_line b))"
    by (simp_all add: wf_block_def)
  from assms have ot: "list_all neutral (other_lines b)"
    by (simp add: wf_block_def list_all_iff)
  show ?thesis
    by (simp add: block_lines_def parse_line_name [OF sk(1) nm]
        parse_line_directory [OF sk(2) d1 d2] foldl_neutral [OF ot] block_record_def)
qed

lemma parse_blocks:
  "list_all wf_block bs \<Longrightarrow>
   foldl parse_line (envs, None) (concat (map block_lines bs))
     = (envs @ map block_record bs, None)"
proof (induction bs arbitrary: envs)
  case Nil
  then show ?case by simp
next
  case (Cons b bs)
  then have "wf_block b" and "list_all wf_block bs" by simp_all
  from parse_block [OF this(1)] Cons.IH [OF this(2)] show ?case by simp
qed

lemma split_lines_line:
  "no_newline l \<Longrightarrow> split_lines (l @ CHR 0x0A # r) = l # split_lines r"
  by (induction l) (simp_all add: no_newline_def)

lemma split_lines_last: "no_newline l \<Longrightarrow> split_lines l = [l]"
  by (induction l) (simp_all add: no_newline_def)

lemma split_join_lines:
  "ls \<noteq> [] \<Longrightarrow> list_all no_newline ls \<Longrightarrow> split_lines (join_lines ls) = ls"
proof (induction ls rule: join_lines.induct)
  case 1
  then show ?case by simp
next
  case (2 l)
  then show ?case by (simp add: split_lines_last)
next
  case (3 l m ls)
  then show ?case by (simp add: split_lines_line)
qed

lemma parse_empty: "parseEnvironmentList [] = []"
  by (simp add: parseEnvironmentList_def parse_line_def js_trim_def drop_trailing_def is_skipped_def)

lemma block_lines_no_newline: "wf_block b \<Longrightarrow> list_all no_newline (block_lines b)"
proof -
  assume "wf_block b"
  then have "no_newline (name_line b)" "no_newline (dir_line b)"
    "list_all (\<lambda>l. no_newline l \<and> neutral l) (other_lines b)"
    by (simp_all add: wf_block_def)
  then show ?thesis by (simp add: block_lines_def list_all_iff)
qed

text \<open>
  Claim C3, amended. Let the text be lines that the loop passes over followed by \<open>n\<close>
  well-formed blocks: in each, neither the name line nor the directory line is blank or
  contains a banner phrase and, trimmed and then freed of ANSI sequences, the name line
  reads white space, name, white space, \<open>a\<close>, white space, type, white space, \<open>project\<close>
  and the directory line reads white space, \<open>Project Directory:\<close>, white space, directory,
  where the directory is not empty, starts with a character that is not white space and
  has no line terminator. Then \<open>parseEnvironmentList\<close> returns exactly \<open>n\<close> records in the
  order of the blocks, each with the name and the directory of its block and the
  directory line as written. (A directory line without ANSI sequences has no white space
  at its end once trimmed, so its directory is the trimmed remainder.)
\<close>

theorem parse_wellformed_blocks:
  assumes "list_all (\<lambda>l. no_newline l \<and> neutral l) header" and "list_all wf_block bs"
  shows "parseEnvironmentList (join_lines (header @ concat (map block_lines bs)))
           = map block_record bs"
proof (cases "header @ concat (map block_lines bs) = []")
  case True
  then have "bs = []" by (cases bs) (simp_all add: block_lines_def)
  with True show ?thesis by (simp add: parse_empty)
next
  case False
  from assms(1) have hn: "list_all neutral header" and hl: "list_all no_newline header"
    by (simp_all add: list_all_iff)
  from assms(2) have "list_all no_newline (concat (map block_lines bs))"
    by (induction bs) (simp_all add: block_lines_no_newline)
  with hl have "list_all no_newline (header @ concat (map block_lines bs))" by simp
  from split_join_lines [OF False this]
  show ?thesis
    by (simp add: parseEnvironmentList_def foldl_neutral [OF hn] parse_blocks [OF assms(2), of "[]", simplified])
qed

lemmas parse_eval =
  parseEnvironmentList_def parse_line_def is_skipped_def js_trim_def drop_trailing_def
  is_space_def is_word_def is_line_term_def is_ansi_param_def ansi_match_def
  match_project_def match_directory_def Let_def esc_def

lemma wf_shop_block: "wf_block shop_block"
  by (simp add: wf_block_def shop_block_def cleanLine_def neutral_def no_newline_def spaces_def
      word_def parse_eval)

lemma wf_blog_block: "wf_block blog_block"
  by (simp add: wf_block_def blog_block_def cleanLine_def neutral_def no_newline_def spaces_def
      word_def parse_eval)

theorem parse_wellformed_blocks_witness:
  "parseEnvironmentList
     (''Found the following 2 running environments:\<newline>''
        @ ''    '' @ esc @ ''[1;35mshop'' @ esc @ ''[0m a magento2 project\<newline>''
        @ ''       Project Directory: '' @ esc @ ''[33m/srv/shop'' @ esc @ ''[0m\<newline>''
        @ ''       Project URL: https://app.shop.test\<newline>\<newline>''
        @ ''    blog_2 a  wordpress project\<newline>''
        @ ''       Project Directory:   /home/dev/my blog  '')
   = [\<lparr>name = ''shop'', path = ''/srv/shop'',
        raw = ''       Project Directory: '' @ esc @ ''[33m/srv/shop'' @ esc @ ''[0m''\<rparr>,
      \<lparr>name = ''blog_2'', path = ''/home/dev/my blog'',
        raw = ''       Project Directory:   /home/dev/my blog  ''\<rparr>]"
proof -
  have h: "list_all (\<lambda>l. no_newline l \<and> neutral l) [''Found the following 2 running environments:'']"
    by (simp add: neutral_def no_newline_def parse_eval)
  have b: "list_all wf_block [shop_block, blog_block]"
    by (simp add: wf_shop_block wf_blog_block)
  from parse_wellformed_blocks [OF h b] show ?thesis
    by (simp add: block_lines_def block_record_def shop_block_def blog_block_def esc_def)
qed

text \<open>
  Claim C3 as stated fails. A directory line that ends with white space and a colour
  reset gives a path that is not trimmed: the line is trimmed before the ANSI sequences
  are removed, and the capture is taken as it is. A directory whose name contains a
  banner phrase gives no record: the line is skipped as a banner line.
\<close>

theorem parse_blocks_counterexample:
  "parseEnvironmentList
     (''shop a magento2 project\<newline>Project Directory: /srv/shop '' @ esc @ ''[0m'')
   = [\<lparr>name = ''shop'', path = ''/srv/shop '',
        raw = ''Project Directory: /srv/shop '' @ esc @ ''[0m''\<rparr>]
   \<and> js_trim ''/srv/shop '' = ''/srv/shop''
   \<and> parseEnvironmentList
     ''shop a magento2 project\<newline>Project Directory: /srv/Found the following'' = []"
  by (simp add: parse_eval)






section \<open>Properties of the configuration file update\<close>































































end
